theory Spec2Isabelle
  imports Main "HOL-Library.Char_ord" "HOL-Library.List_Lexorder" "HOL-Library.AList"
    "HOL-Library.Sublist"
begin

section \<open>Python values used by \<open>pad_experiments.py\<close>\<close>

text \<open>
  The exceptions that the modelled statements of \<open>resume_or_start\<close> and \<open>main\<close> can
  raise. The program defines no exception class of its own: every failure below is one of
  Python's built-in exceptions, raised by the statement named in the comments of the
  definitions. \<open>SystemExit\<close> is the \<open>exit(1)\<close> of \<open>main\<close>.
\<close>

datatype error =
    ValueError
  | IndexError
  | KeyError
  | TypeError
  | UnboundLocalError
  | AttributeError
  | FileNotFoundError
  | NotADirectoryError
  | IsADirectoryError
  | FileExistsError
  | SystemExit

subsection \<open>Strings\<close>

text \<open>
  Strings are lists of 8-bit characters, and the model is of ASCII text. \<open>str.strip()\<close>
  removes the white space of Python's \<open>str.isspace\<close>; in the 7-bit range these are the
  codes 9 to 13, 28 to 31 and 32. (The white space and the decimal digits that Python
  knows beyond ASCII are outside the model.)
\<close>

definition is_space :: "char \<Rightarrow> bool" where
  "is_space c \<longleftrightarrow> c \<in> set [CHR 0x09, CHR 0x0A, CHR 0x0B, CHR 0x0C, CHR 0x0D,
                          CHR 0x1C, CHR 0x1D, CHR 0x1E, CHR 0x1F, CHR 0x20]"

definition py_strip :: "string \<Rightarrow> string" where
  "py_strip s = rev (dropWhile is_space (rev (dropWhile is_space s)))"

text \<open>
  \<open>s.split(sep)\<close> for a non-empty separator: the occurrences of \<open>sep\<close> are found from the
  left and do not overlap; the result always has at least one element. (Python raises for
  an empty separator; the program only splits at \<open>'='\<close>, \<open>'-'\<close> and \<open>': '\<close>.)
\<close>

fun split_from :: "string \<Rightarrow> string \<Rightarrow> string \<Rightarrow> string list" where
  "split_from sep cur [] = [rev cur]"
| "split_from sep cur (c # cs) =
     (if sep \<noteq> [] \<and> take (length sep) (c # cs) = sep
      then rev cur # split_from sep [] (drop (length sep - 1) cs)
      else split_from sep (c # cur) cs)"

definition py_split :: "string \<Rightarrow> string \<Rightarrow> string list" where
  "py_split s sep = split_from sep [] s"

text \<open>
  \<open>int(s)\<close> for a string. The white space that \<open>int\<close> removes around the numeral is
  that of C's \<open>isspace\<close>, the codes 9 to 13 and 32 only: the codes 28 to 31, which
  \<open>str.strip()\<close> removes, make \<open>int\<close> fail. One sign is allowed, and the rest is a
  non-empty run of decimal digits in which single underscores may separate digits. A
  numeral of more than 4300 digits (the default of \<open>sys.get_int_max_str_digits()\<close>; signs,
  underscores and white space are not counted, leading zeros are) is refused. \<open>None\<close>
  stands for the \<open>ValueError\<close>.
\<close>

definition is_c_space :: "char \<Rightarrow> bool" where
  "is_c_space c \<longleftrightarrow> c \<in> set [CHR 0x09, CHR 0x0A, CHR 0x0B, CHR 0x0C, CHR 0x0D, CHR 0x20]"

definition int_strip :: "string \<Rightarrow> string" where
  "int_strip s = rev (dropWhile is_c_space (rev (dropWhile is_c_space s)))"

definition int_max_str_digits :: nat where
  "int_max_str_digits = 4300"

definition digit_val :: "char \<Rightarrow> int option" where
  "digit_val c =
     (if c \<in> set ''0123456789''
      then Some (int (length (takeWhile (\<lambda>d. d \<noteq> c) ''0123456789'')))
      else None)"

fun digits_from :: "int \<Rightarrow> string \<Rightarrow> int option" where
  "digits_from a [] = Some a"
| "digits_from a [c] =
     (case digit_val c of Some d \<Rightarrow> Some (10 * a + d) | None \<Rightarrow> None)"
| "digits_from a (c # d # cs) =
     (case digit_val c of
        Some v \<Rightarrow> digits_from (10 * a + v) (d # cs)
      | None \<Rightarrow>
          if c = CHR ''_'' then
            (case digit_val d of
               Some w \<Rightarrow> digits_from (10 * a + w) cs
             | None \<Rightarrow> None)
          else None)"

definition py_digits :: "string \<Rightarrow> int option" where
  "py_digits s =
     (if int_max_str_digits < length (filter (\<lambda>c. digit_val c \<noteq> None) s) then None
      else
        (case s of
           [] \<Rightarrow> None
         | c # cs \<Rightarrow> (case digit_val c of Some d \<Rightarrow> digits_from d cs | None \<Rightarrow> None)))"

definition py_int :: "string \<Rightarrow> int option" where
  "py_int s =
     (case int_strip s of
        [] \<Rightarrow> None
      | c # cs \<Rightarrow>
          if c = CHR ''-'' then map_option uminus (py_digits cs)
          else if c = CHR ''+'' then py_digits cs
          else py_digits (c # cs))"

subsection \<open>Paths\<close>

text \<open>
  A \<open>pathlib\<close> path on POSIX: the root (\<open>''\<close>, \<open>'/'\<close> or \<open>'//'\<close>) and the list of
  components. \<open>Path(s)\<close> splits at \<open>'/'\<close> and drops empty components and \<open>'.'\<close>; exactly
  two leading slashes give the root \<open>'//'\<close>.
\<close>

record path =
  root :: string
  parts :: "string list"

definition Path :: "string \<Rightarrow> path" where
  "Path s =
     \<lparr> root = (if take 1 s \<noteq> ''/'' then ''''
               else if take 2 s = ''//'' \<and> take 3 s \<noteq> ''///'' then ''//''
               else ''/''),
       parts = filter (\<lambda>x. x \<noteq> '''' \<and> x \<noteq> ''.'') (py_split s ''/'') \<rparr>"

definition parent :: "path \<Rightarrow> path" where
  "parent p = p \<lparr> parts := butlast (parts p) \<rparr>"

definition joinpath :: "path \<Rightarrow> string \<Rightarrow> path" where
  "joinpath p x = p \<lparr> parts := parts p @ [x] \<rparr>"

definition name :: "path \<Rightarrow> string" where
  "name p = (if parts p = [] then '''' else last (parts p))"

text \<open>
  \<open>stem\<close>: the final component without its suffix. With \<open>i\<close> the index of the last dot of
  the name, the suffix is cut when \<open>0 < i < len(name) - 1\<close>.
\<close>

definition rfind_dot :: "string \<Rightarrow> nat option" where
  "rfind_dot s =
     (if CHR ''.'' \<in> set s
      then Some (length s - 1 - length (takeWhile (\<lambda>c. c \<noteq> CHR ''.'') (rev s)))
      else None)"

definition stem :: "path \<Rightarrow> string" where
  "stem p =
     (case rfind_dot (name p) of
        None \<Rightarrow> name p
      | Some i \<Rightarrow> if 0 < i \<and> i < length (name p) - 1 then take i (name p) else name p)"

text \<open>Paths are ordered as \<open>sorted\<close> orders them: by the list of root and components.\<close>

definition path_key :: "path \<Rightarrow> string list" where
  "path_key p = (if root p = '''' then parts p else root p # parts p)"

section \<open>The file system and the clock\<close>

text \<open>
  The directory tree that the program reads and extends. A directory lists its entries in
  the order in which the operating system enumerates them; a regular file holds the lines
  that iterating over the open file yields (each with its line terminator, if it has one).
  A relative path is resolved against the working directory \<open>cwd\<close>. Paths are taken
  without \<open>'..'\<close> components and the tree without symbolic links.
\<close>

datatype node = File "string list" | Dir "(string \<times> node) list"

record filesystem =
  tree :: node
  cwd :: "string list"

definition abs_parts :: "filesystem \<Rightarrow> path \<Rightarrow> string list" where
  "abs_parts fs p = (if root p = '''' then cwd fs @ parts p else parts p)"

fun lookup :: "node \<Rightarrow> string list \<Rightarrow> error + node" where
  "lookup n [] = Inr n"
| "lookup (File ls) (x # xs) = Inl NotADirectoryError"
| "lookup (Dir cs) (x # xs) =
     (case map_of cs x of None \<Rightarrow> Inl FileNotFoundError | Some n \<Rightarrow> lookup n xs)"

text \<open>\<open>open(p, 'r')\<close> followed by iteration over the lines.\<close>

definition open_lines :: "filesystem \<Rightarrow> path \<Rightarrow> error + string list" where
  "open_lines fs p =
     (case lookup (tree fs) (abs_parts fs p) of
        Inl e \<Rightarrow> Inl e
      | Inr (Dir cs) \<Rightarrow> Inl IsADirectoryError
      | Inr (File ls) \<Rightarrow> Inr ls)"

text \<open>
  \<open>p.glob(pattern)\<close> for a pattern without a slash: the entries of the directory \<open>p\<close>
  whose names match, each as \<open>p / name\<close>, in enumeration order. Nothing is yielded when
  \<open>p\<close> is not a directory. The pattern is given as the predicate on names that it
  denotes: \<open>'run_*'\<close> holds of the names that start with \<open>run_\<close>, \<open>'*'\<close> of every name.
\<close>

definition listdir :: "filesystem \<Rightarrow> path \<Rightarrow> string list" where
  "listdir fs p =
     (case lookup (tree fs) (abs_parts fs p) of
        Inr (Dir cs) \<Rightarrow> map fst cs
      | _ \<Rightarrow> [])"

definition glob :: "filesystem \<Rightarrow> path \<Rightarrow> (string \<Rightarrow> bool) \<Rightarrow> path list" where
  "glob fs p matches = map (joinpath p) (filter matches (listdir fs p))"

definition run_star :: "string \<Rightarrow> bool" where
  "run_star n \<longleftrightarrow> take 4 n = ''run_''"

definition star :: "string \<Rightarrow> bool" where
  "star n \<longleftrightarrow> True"

text \<open>
  \<open>p.mkdir(exist_ok=True, parents=True)\<close>: missing directories along the path are
  created, an existing directory is left as it is, and a regular file in the way is an
  error. A new entry is enumerated after the entries that were there.
\<close>

fun fresh_dirs :: "string list \<Rightarrow> node" where
  "fresh_dirs [] = Dir []"
| "fresh_dirs (x # xs) = Dir [(x, fresh_dirs xs)]"

fun mkdir_p :: "node \<Rightarrow> string list \<Rightarrow> error + node" where
  "mkdir_p (File ls) [] = Inl FileExistsError"
| "mkdir_p (File ls) (x # xs) = Inl NotADirectoryError"
| "mkdir_p (Dir cs) [] = Inr (Dir cs)"
| "mkdir_p (Dir cs) (x # xs) =
     (case map_of cs x of
        None \<Rightarrow> Inr (Dir (cs @ [(x, fresh_dirs xs)]))
      | Some n \<Rightarrow>
          (case mkdir_p n xs of
             Inl e \<Rightarrow> Inl e
           | Inr n' \<Rightarrow> Inr (Dir (AList.update x n' cs))))"

definition mkdir :: "filesystem \<Rightarrow> path \<Rightarrow> error + filesystem" where
  "mkdir fs p =
     (case mkdir_p (tree fs) (abs_parts fs p) of
        Inl e \<Rightarrow> Inl e
      | Inr t \<Rightarrow> Inr (fs \<lparr> tree := t \<rparr>))"

text \<open>
  The reading of the clock, \<open>datetime.now()\<close>, and its rendering by
  \<open>strftime("%Y%m%d%H%M%S")\<close>: four digits of the year, then two digits each of month,
  day, hour, minute and second. The microseconds are not rendered. The fields are within
  the ranges of a \<open>datetime\<close> (the year below 10000, the others below 100).
\<close>

record datetime =
  year :: nat
  month :: nat
  day :: nat
  hour :: nat
  minute :: nat
  second :: nat
  microsecond :: nat

definition digit_char :: "nat \<Rightarrow> char" where
  "digit_char n = ''0123456789'' ! (n mod 10)"

definition pad2 :: "nat \<Rightarrow> string" where
  "pad2 n = [digit_char (n div 10), digit_char n]"

definition pad4 :: "nat \<Rightarrow> string" where
  "pad4 n = [digit_char (n div 1000), digit_char (n div 100), digit_char (n div 10), digit_char n]"

definition strftime :: "datetime \<Rightarrow> string" where
  "strftime t =
     pad4 (year t) @ pad2 (month t) @ pad2 (day t) @ pad2 (hour t) @ pad2 (minute t)
       @ pad2 (second t)"

section \<open>\<open>resume_or_start\<close>\<close>

text \<open>
  The two expressions that read an epoch number off a checkpoint path.
  Lines 63 and 82, \<open>int(p.stem.split('=')[1].split('-')[0])\<close>: the text between the first
  \<open>'='\<close> of the stem and the next \<open>'='\<close> or \<open>'-'\<close>. The index 1 raises \<open>IndexError\<close> when
  the stem has no \<open>'='\<close>.
\<close>

definition epoch_after_first_eq :: "path \<Rightarrow> error + int" where
  "epoch_after_first_eq p =
     (case py_split (stem p) ''='' of
        a # b # rest \<Rightarrow>
          (case py_split b ''-'' of
             [] \<Rightarrow> Inl IndexError
           | c # cs \<Rightarrow> (case py_int c of None \<Rightarrow> Inl ValueError | Some n \<Rightarrow> Inr n))
      | _ \<Rightarrow> Inl IndexError)"

text \<open>Line 71, \<open>int(x.stem.split('=')[-1])\<close>: the text after the last \<open>'='\<close> of the stem.\<close>

definition epoch_after_last_eq :: "path \<Rightarrow> error + int" where
  "epoch_after_last_eq x =
     (case rev (py_split (stem x) ''='') of
        [] \<Rightarrow> Inl IndexError
      | c # cs \<Rightarrow> (case py_int c of None \<Rightarrow> Inl ValueError | Some n \<Rightarrow> Inr n))"

text \<open>
  The dictionary comprehension of line 71 over the entries of a checkpoint directory. A
  dictionary is an association list in insertion order; storing under a key that is
  present replaces the value in place.
\<close>

fun epoch_ckpt_from :: "(int \<times> path) list \<Rightarrow> path list \<Rightarrow> error + (int \<times> path) list" where
  "epoch_ckpt_from d [] = Inr d"
| "epoch_ckpt_from d (x # xs) =
     (case epoch_after_last_eq x of
        Inl e \<Rightarrow> Inl e
      | Inr k \<Rightarrow> epoch_ckpt_from (AList.update k x d) xs)"

definition scan_checkpoints :: "filesystem \<Rightarrow> path \<Rightarrow> error + (int \<times> path) list" where
  "scan_checkpoints fs run_path =
     epoch_ckpt_from [] (glob fs (joinpath run_path ''checkpoints'') star)"

text \<open>
  \<open>resume_or_start(results_path, resume, train, num_epochs, load_checkpoint)\<close>, with the
  file system and the clock as further arguments. The result is the file system after the
  call and the returned tuple \<open>(run_path, resume_from_checkpoint, max_epoch, init_epoch)\<close>.
\<close>

definition resume_or_start ::
  "filesystem \<Rightarrow> datetime \<Rightarrow> path \<Rightarrow> string option \<Rightarrow> bool \<Rightarrow> int \<Rightarrow> string option
     \<Rightarrow> error + (filesystem \<times> path \<times> path option \<times> int \<times> int)" where
  "resume_or_start fs now results_path resume train num_epochs load_checkpoint =
     (if \<not> train then
        \<comment> \<open>Load the given checkpoint to test with\<close>
        (case load_checkpoint of
           None \<Rightarrow> Inl TypeError
         | Some s \<Rightarrow>
             (let lc = Path s;
                  run_path = parent (parent lc)
              in case epoch_after_first_eq lc of
                   Inl e \<Rightarrow> Inl e
                 | Inr init_epoch \<Rightarrow> Inr (fs, run_path, Some lc, init_epoch + 1, init_epoch)))
      else if resume = Some ''last'' then
        \<comment> \<open>Use last run's latest checkpoint to resume training\<close>
        (let run_paths = sort_key path_key (glob fs results_path run_star)
         in if run_paths = [] then Inl IndexError
            else
              (let run_path = last run_paths
               in case scan_checkpoints fs run_path of
                    Inl e \<Rightarrow> Inl e
                  | Inr epoch_ckpt \<Rightarrow>
                      (let keys = sort (map fst epoch_ckpt)
                       in if keys = [] then Inl IndexError
                          else
                            (let init_epoch = last keys
                             in case map_of epoch_ckpt init_epoch of
                                  None \<Rightarrow> Inl KeyError
                                | Some ckpt_path \<Rightarrow>
                                    Inr (fs, run_path, Some ckpt_path, init_epoch + num_epochs,
                                         init_epoch)))))
      else
        (case resume of
           Some r \<Rightarrow>
             \<comment> \<open>Load the given checkpoint to resume training\<close>
             (let rp = Path r;
                  run_path = parent (parent rp)
              in case epoch_after_first_eq rp of
                   Inl e \<Rightarrow> Inl e
                 | Inr init_epoch \<Rightarrow>
                     Inr (fs, run_path, Some rp, init_epoch + num_epochs, init_epoch))
         | None \<Rightarrow>
             if train then
               \<comment> \<open>Create folder to save this run's results into\<close>
               (let run_ts = strftime now;
                    run_path = joinpath results_path (''run_'' @ run_ts)
                in case mkdir fs run_path of
                     Inl e \<Rightarrow> Inl e
                   | Inr fs' \<Rightarrow> Inr (fs', run_path, None, num_epochs, 0))
             else Inl UnboundLocalError))"

section \<open>The block of \<open>main\<close> that resolves the run\<close>

text \<open>
  Lines 225 to 229: the loop over the lines of \<open>lrs.txt\<close>. The variable
  \<open>init_learning_rate\<close> is \<open>None\<close> while nothing has been assigned to it. \<open>float\<close> is a
  parameter: \<open>float_of s\<close> is the value of \<open>float(s)\<close>, or \<open>None\<close> for its \<open>ValueError\<close>.
\<close>

definition epoch_lr :: "string \<Rightarrow> string list" where
  "epoch_lr line = py_split (py_strip line) '': ''"

fun restore_lr :: "(string \<Rightarrow> 'r option) \<Rightarrow> int \<Rightarrow> 'r option \<Rightarrow> string list \<Rightarrow> error + 'r option" where
  "restore_lr float_of init_epoch init_learning_rate [] = Inr init_learning_rate"
| "restore_lr float_of init_epoch init_learning_rate (line # ls) =
     (case epoch_lr line of
        [] \<Rightarrow> Inl IndexError
      | e # vs \<Rightarrow>
          (case py_int e of
             None \<Rightarrow> Inl ValueError
           | Some k \<Rightarrow>
               if k = init_epoch then
                 (case vs of
                    [] \<Rightarrow> Inl IndexError
                  | v # ws \<Rightarrow>
                      (case float_of v of
                         None \<Rightarrow> Inl ValueError
                       | Some x \<Rightarrow> restore_lr float_of init_epoch (Some x) ls))
               else restore_lr float_of init_epoch init_learning_rate ls))"

text \<open>
  The models of \<open>--model\<close>. The blocks of \<open>convlstm\<close>, \<open>convstar\<close>, \<open>unet\<close> and \<open>utae\<close>
  read the ledger when \<open>--resume\<close> is given; the blocks of \<open>tempcnn\<close> and \<open>simvp\<close> have no
  such statement.
\<close>

datatype model = ConvLSTM | TempCNN | ConvSTAR | UNet | UTAE | SimVP

definition restores_lr :: "model \<Rightarrow> bool" where
  "restores_lr m \<longleftrightarrow> m = ConvLSTM \<or> m = ConvSTAR \<or> m = UNet \<or> m = UTAE"

record 'r plan =
  run_path :: path
  checkpoint_to_load :: "path option"
  start_epoch :: int
  end_epoch :: int
  restored_learning_rate :: "'r option"

text \<open>
  \<open>main\<close> from the check of line 162 up to the evaluation of the arguments of the model's
  constructor, with the results path of \<open>create_model_log_path\<close> as an argument. The
  constructor of \<open>tempcnn\<close> is given \<open>args.window_len\<close>, an attribute that the argument
  parser does not define. In the four blocks that read the ledger the constructor is given
  \<open>init_learning_rate\<close>, which is unbound when no line of the ledger assigned it.
\<close>

definition main_plan ::
  "(string \<Rightarrow> 'r option) \<Rightarrow> model \<Rightarrow> filesystem \<Rightarrow> datetime \<Rightarrow> path \<Rightarrow> string option \<Rightarrow> bool
     \<Rightarrow> int \<Rightarrow> string option \<Rightarrow> error + (filesystem \<times> 'r plan)" where
  "main_plan float_of m fs now results_path resume train num_epochs load_checkpoint =
     (if \<not> train \<and> load_checkpoint = None then Inl SystemExit
      else
        case resume_or_start fs now results_path resume train num_epochs load_checkpoint of
          Inl e \<Rightarrow> Inl e
        | Inr (fs', rp, resume_from_checkpoint, max_epoch, init_epoch) \<Rightarrow>
            (let unrestored =
                   \<lparr> run_path = rp, checkpoint_to_load = resume_from_checkpoint,
                     start_epoch = init_epoch, end_epoch = max_epoch,
                     restored_learning_rate = None \<rparr>
             in if m = TempCNN then Inl AttributeError
                else if m = SimVP then Inr (fs', unrestored)
                else if resume \<noteq> None then
                  (case open_lines fs' (joinpath rp ''lrs.txt'') of
                     Inl e \<Rightarrow> Inl e
                   | Inr ls \<Rightarrow>
                       (case restore_lr float_of init_epoch None ls of
                          Inl e \<Rightarrow> Inl e
                        | Inr None \<Rightarrow> Inl UnboundLocalError
                        | Inr (Some lr) \<Rightarrow>
                            Inr (fs', unrestored \<lparr> restored_learning_rate := Some lr \<rparr>)))
                else Inr (fs', unrestored)))"

section \<open>Checkpoint names\<close>

text \<open>
  The decimal numeral of a natural number, as \<open>str\<close> and the format specifications
  write it, and the number that a run of digits denotes. They state how checkpoint names
  of the forms \<open>epoch=N.ckpt\<close> and \<open>epoch=N-step=S.ckpt\<close> are read.
\<close>

fun decimal :: "nat \<Rightarrow> string" where
  "decimal n = (if n < 10 then [digit_char n] else decimal (n div 10) @ [digit_char n])"

declare decimal.simps [simp del]

definition digits_value :: "string \<Rightarrow> int" where
  "digits_value s = foldl (\<lambda>a c. 10 * a + the (digit_val c)) 0 s"

section \<open>Example inputs\<close>

text \<open>
  An instance of \<open>float\<close> for the examples: a plain decimal literal (digits, optionally a
  point and more digits, within the white space that \<open>int\<close> removes too) is accepted and
  its value is written as the literal itself; any other text is rejected. Python's \<open>float\<close> accepts further forms, which the examples do
  not use.
\<close>

definition decimal_literal :: "string \<Rightarrow> string option" where
  "decimal_literal s =
     (let t = int_strip s
      in case py_split t ''.'' of
           [a] \<Rightarrow> if py_digits a \<noteq> None then Some t else None
         | [a, b] \<Rightarrow> if py_digits a \<noteq> None \<and> py_digits b \<noteq> None then Some t else None
         | _ \<Rightarrow> None)"

text \<open>
  A results root \<open>logs\<close> with the single run \<open>run_1\<close>, the given checkpoint files and the
  given ledger lines; and a results root without runs.
\<close>

definition one_run :: "string list \<Rightarrow> string list \<Rightarrow> filesystem" where
  "one_run ckpts ledger =
     \<lparr> tree = Dir [(''logs'',
                Dir [(''run_1'',
                  Dir [(''checkpoints'', Dir (map (\<lambda>n. (n, File [])) ckpts)),
                       (''lrs.txt'', File ledger)])])],
       cwd = [] \<rparr>"

definition no_runs :: filesystem where
  "no_runs = \<lparr> tree = Dir [(''logs'', Dir [])], cwd = [] \<rparr>"

definition clock :: datetime where
  "clock = \<lparr> year = 2024, month = 3, day = 9, hour = 7, minute = 5, second = 1,
             microsecond = 17 \<rparr>"

definition two_epochs :: filesystem where
  "two_epochs =
     one_run [''epoch=0.ckpt'', ''epoch=1.ckpt''] [''0: 0.1\<newline>'', ''1: 0.05\<newline>'']"

definition stepped :: filesystem where
  "stepped =
     one_run [''epoch=0-step=9.ckpt'', ''epoch=1-step=19.ckpt'']
       [''0: 0.1\<newline>'', ''1: 0.05\<newline>'']"

definition repeated_ledger :: filesystem where
  "repeated_ledger =
     one_run [''epoch=0.ckpt'', ''epoch=1.ckpt'']
       [''0: 0.1\<newline>'', ''1: 0.05\<newline>'', ''1: 0.02\<newline>'']"

definition short_ledger :: filesystem where
  "short_ledger = one_run [''epoch=0.ckpt'', ''epoch=1.ckpt''] [''0: 0.1\<newline>'']"

definition with_last_ckpt :: filesystem where
  "with_last_ckpt =
     one_run [''epoch=0.ckpt'', ''last.ckpt''] [''0: 0.1\<newline>'']"


text \<open>
  The results root without runs after a fresh start at the time of \<open>clock\<close>.
\<close>

definition after_fresh_start :: filesystem where
  "after_fresh_start = \<lparr> tree = Dir [(''logs'', Dir [(''run_20240309070501'', Dir [])])], cwd = [] \<rparr>"

section \<open>Properties\<close>

subsection \<open>Shared lemmas\<close>


text \<open>
  Splitting never yields the empty list, so the index \<open>[-1]\<close> of line 71 and the index
  \<open>[0]\<close> of line 228 cannot fail.
\<close>

lemma split_from_nonempty: "split_from sep cur s \<noteq> []"
  by (induction sep cur s rule: split_from.induct) auto

lemma epoch_lr_nonempty: "epoch_lr line \<noteq> []"
  by (simp add: epoch_lr_def py_split_def split_from_nonempty)

subsection \<open>Reading checkpoint names\<close>

text \<open>
  \<open>int\<close> reads a decimal numeral of at most 4300 digits back as its number.
\<close>

lemma digit_val_digit_char: "digit_val (digit_char d) = Some (int (d mod 10))"
proof -
  have "d mod 10 < 10" by simp
  then consider "d mod 10 = 0" | "d mod 10 = 1" | "d mod 10 = 2" | "d mod 10 = 3"
    | "d mod 10 = 4" | "d mod 10 = 5" | "d mod 10 = 6" | "d mod 10 = 7" | "d mod 10 = 8"
    | "d mod 10 = 9"
    by atomize_elim arith
  then show ?thesis
    by cases (simp_all add: digit_char_def digit_val_def)
qed

lemma digit_not_special:
  assumes "digit_val c \<noteq> None"
  shows "\<not> is_c_space c" and "c \<noteq> CHR ''-''" and "c \<noteq> CHR ''+''" and "c \<noteq> CHR ''=''"
    and "c \<noteq> CHR ''_''" and "c \<noteq> CHR ''.''"
  using assms by (auto simp: digit_val_def is_c_space_def split: if_splits)

lemma decimal_digits: "decimal n \<noteq> [] \<and> (\<forall>c\<in>set (decimal n). digit_val c \<noteq> None)"
proof (induction n rule: decimal.induct)
  case (1 n)
  show ?case
  proof (cases "n < 10")
    case True
    then show ?thesis by (simp add: decimal.simps [of n] digit_val_digit_char)
  next
    case False
    with 1 show ?thesis by (simp add: decimal.simps [of n] digit_val_digit_char)
  qed
qed

lemma digits_from_foldl:
  assumes "\<forall>c\<in>set s. digit_val c \<noteq> None"
  shows "digits_from a s = Some (foldl (\<lambda>a c. 10 * a + the (digit_val c)) a s)"
  using assms
proof (induction a s rule: digits_from.induct)
  case (1 a)
  then show ?case by simp
next
  case (2 a c)
  then show ?case by auto
next
  case (3 a c d cs)
  then show ?case by auto
qed

lemma py_digits_value:
  assumes "s \<noteq> []" and "\<forall>c\<in>set s. digit_val c \<noteq> None"
    and "length s \<le> int_max_str_digits"
  shows "py_digits s = Some (digits_value s)"
proof -
  have lim: "\<not> int_max_str_digits < length (filter (\<lambda>c. digit_val c \<noteq> None) s)"
    using assms(3) by (metis length_filter_le le_trans not_less)
  from assms(1) obtain c cs where s: "s = c # cs" by (cases s) auto
  with assms(2) obtain d where d: "digit_val c = Some d" by auto
  from assms(2) s have "\<forall>c\<in>set cs. digit_val c \<noteq> None" by simp
  from digits_from_foldl [OF this, of d] s d lim show ?thesis
    by (simp add: py_digits_def digits_value_def)
qed

lemma digits_value_decimal: "digits_value (decimal n) = int n"
proof (induction n rule: decimal.induct)
  case (1 n)
  show ?case
  proof (cases "n < 10")
    case True
    then show ?thesis
      by (simp add: decimal.simps [of n] digits_value_def digit_val_digit_char)
  next
    case False
    with 1 have "digits_value (decimal (n div 10)) = int (n div 10)" by simp
    moreover have "10 * int (n div 10) + int (n mod 10) = int n" by arith
    ultimately show ?thesis using False
      by (simp add: decimal.simps [of n] digits_value_def digit_val_digit_char)
  qed
qed

lemma int_strip_digits:
  assumes "s \<noteq> []" and "\<forall>c\<in>set s. digit_val c \<noteq> None"
  shows "int_strip s = s"
proof -
  from assms have h: "\<not> is_c_space (hd s)" and l: "\<not> is_c_space (last s)"
    using digit_not_special(1) by auto
  from assms(1) h have a: "dropWhile is_c_space s = s" by (cases s) auto
  from assms(1) l have "dropWhile is_c_space (rev s) = rev s"
    by (cases "rev s") (auto simp: last_rev [symmetric] hd_rev)
  with a show ?thesis by (simp add: int_strip_def)
qed

lemma py_int_decimal:
  assumes "length (decimal n) \<le> int_max_str_digits"
  shows "py_int (decimal n) = Some (int n)"
proof -
  from decimal_digits [of n] obtain c cs where s: "decimal n = c # cs"
    and dg: "\<forall>c\<in>set (decimal n). digit_val c \<noteq> None"
    by (cases "decimal n") auto
  then have c: "c \<noteq> CHR ''-''" "c \<noteq> CHR ''+''"
    using digit_not_special(2,3) [of c] by auto
  have st: "int_strip (decimal n) = decimal n"
    using int_strip_digits decimal_digits by blast
  have "py_digits (decimal n) = Some (int n)"
    using py_digits_value [of "decimal n"] decimal_digits [of n] digits_value_decimal assms
    by simp
  with st s c show ?thesis by (simp add: py_int_def)
qed

text \<open>
  Splitting at a single character: the first part ends before the first occurrence of
  the character, the last part starts after its last occurrence.
\<close>

lemma split_from_hd:
  "\<exists>rest. split_from [c] cur s = (rev cur @ takeWhile (\<lambda>x. x \<noteq> c) s) # rest \<and>
          (rest = [] \<longleftrightarrow> c \<notin> set s) \<and>
          (c \<in> set s \<longrightarrow> rest = split_from [c] [] (tl (dropWhile (\<lambda>x. x \<noteq> c) s)))"
proof (induction s arbitrary: cur)
  case Nil
  then show ?case by simp
next
  case (Cons x xs)
  show ?case
  proof (cases "x = c")
    case True
    then show ?thesis by (simp add: split_from_nonempty)
  next
    case False
    from Cons [of "x # cur"] False show ?thesis by auto
  qed
qed

lemma split_from_last:
  "last (split_from [c] cur s) =
     (if c \<in> set s then rev (takeWhile (\<lambda>x. x \<noteq> c) (rev s)) else rev cur @ s)"
proof (induction s arbitrary: cur)
  case Nil
  then show ?case by simp
next
  case (Cons x xs)
  show ?case
  proof (cases "x = c")
    case True
    have "last (split_from [c] [] xs) = rev (takeWhile (\<lambda>x. x \<noteq> c) (rev xs @ [c]))"
      using Cons [of "[]"] by (auto simp: takeWhile_append)
    with True show ?thesis
      by (simp add: split_from_nonempty)
  next
    case False
    with Cons [of "x # cur"] show ?thesis
      by (auto simp: takeWhile_append)
  qed
qed

lemma stem_ckpt:
  assumes "name p = nm @ ''.ckpt''" and "nm \<noteq> []" and "CHR ''.'' \<notin> set nm"
  shows "stem p = nm"
proof -
  have "takeWhile (\<lambda>c. c \<noteq> CHR ''.'') (rev (nm @ ''.ckpt'')) = ''tpkc''"
    by simp
  then have "rfind_dot (nm @ ''.ckpt'') = Some (length nm)"
    by (simp add: rfind_dot_def)
  with assms show ?thesis by (simp add: stem_def)
qed

lemma takeWhile_digits:
  assumes "\<forall>c\<in>set ds. digit_val c \<noteq> None" and "digit_val x = None"
  shows "takeWhile (\<lambda>c. c \<noteq> x) (ds @ rest) = ds @ takeWhile (\<lambda>c. c \<noteq> x) rest"
  using assms by (induction ds) auto

text \<open>
  On a name \<open>epoch=N\<close>, optionally followed by \<open>-\<close> and more text, with the suffix
  \<open>.ckpt\<close>, the expression of lines 63 and 82 reads \<open>N\<close>. The expression of line 71
  reads the numeral between the last \<open>'='\<close> and the suffix. So the two agree on the names
  \<open>epoch=N.ckpt\<close>, and on every name \<open>epoch=N-step=S.ckpt\<close> the scanner reads the step
  \<open>S\<close> where the other two sites read the epoch \<open>N\<close>.
\<close>

lemma epoch_after_first_eq_named:
  assumes "name p = ''epoch='' @ decimal N @ rest @ ''.ckpt''"
    and "rest = [] \<or> hd rest = CHR ''-''"
    and "CHR ''.'' \<notin> set rest"
    and "length (decimal N) \<le> int_max_str_digits"
  shows "epoch_after_first_eq p = Inr (int N)"
proof -
  let ?ds = "decimal N"
  have dg: "\<forall>c\<in>set ?ds. digit_val c \<noteq> None" and ne: "?ds \<noteq> []"
    using decimal_digits [of N] by simp_all
  have nodot: "CHR ''.'' \<notin> set ?ds"
    using dg digit_not_special(6) by blast
  have st: "stem p = ''epoch='' @ ?ds @ rest"
    using stem_ckpt [of p "''epoch='' @ ?ds @ rest"] assms(1,3) nodot by simp
  have eqv: "digit_val (CHR ''='') = None" and mnv: "digit_val (CHR ''-'') = None"
    by (simp_all add: digit_val_def)
  obtain more where sp: "split_from ''='' [] (?ds @ rest)
                           = takeWhile (\<lambda>x. x \<noteq> CHR ''='') (?ds @ rest) # more"
    using split_from_hd [of "CHR ''=''" "[]" "?ds @ rest"] by auto
  have b: "takeWhile (\<lambda>x. x \<noteq> CHR ''='') (?ds @ rest)
             = ?ds @ takeWhile (\<lambda>x. x \<noteq> CHR ''='') rest"
    using takeWhile_digits [OF dg eqv] by simp
  have first: "py_split (stem p) ''=''
                 = ''epoch'' # (?ds @ takeWhile (\<lambda>x. x \<noteq> CHR ''='') rest) # more"
    using st sp b by (simp add: py_split_def)
  obtain more' where sp': "split_from ''-'' [] (?ds @ takeWhile (\<lambda>x. x \<noteq> CHR ''='') rest)
       = takeWhile (\<lambda>x. x \<noteq> CHR ''-'') (?ds @ takeWhile (\<lambda>x. x \<noteq> CHR ''='') rest) # more'"
    using split_from_hd [of "CHR ''-''" "[]" "?ds @ takeWhile (\<lambda>x. x \<noteq> CHR ''='') rest"]
    by auto
  have "takeWhile (\<lambda>x. x \<noteq> CHR ''-'') (takeWhile (\<lambda>x. x \<noteq> CHR ''='') rest) = []"
    using assms(2) by (cases rest) auto
  then have c: "takeWhile (\<lambda>x. x \<noteq> CHR ''-'') (?ds @ takeWhile (\<lambda>x. x \<noteq> CHR ''='') rest) = ?ds"
    using takeWhile_digits [OF dg mnv] by simp
  from first sp' c py_int_decimal [OF assms(4)] show ?thesis
    by (simp add: epoch_after_first_eq_def py_split_def)
qed

lemma epoch_after_last_eq_named:
  assumes "name p = pre @ ''='' @ decimal S @ ''.ckpt''" and "CHR ''.'' \<notin> set pre"
    and "length (decimal S) \<le> int_max_str_digits"
  shows "epoch_after_last_eq p = Inr (int S)"
proof -
  have dgS: "\<forall>c\<in>set (decimal S). digit_val c \<noteq> None"
    using decimal_digits by simp
  have nodot: "CHR ''.'' \<notin> set (decimal S)"
    using dgS digit_not_special(6) by blast
  have noeq: "CHR ''='' \<notin> set (decimal S)"
    using dgS digit_not_special(4) by blast
  have st: "stem p = pre @ ''='' @ decimal S"
    using stem_ckpt [of p "pre @ ''='' @ decimal S"] assms nodot by simp
  have tw: "takeWhile (\<lambda>x. x \<noteq> CHR ''='') (rev (decimal S)) = rev (decimal S)"
    using noeq by (auto simp: takeWhile_eq_all_conv)
  have "last (py_split (stem p) ''='') = decimal S"
    unfolding py_split_def st split_from_last
    using tw by (simp add: takeWhile_append)
  moreover have "py_split (stem p) ''='' \<noteq> []"
    by (simp add: py_split_def split_from_nonempty)
  ultimately have "\<exists>cs. rev (py_split (stem p) ''='') = decimal S # cs"
    by (metis last_rev rev_is_Nil_conv list.sel(1) list.exhaust rev_rev_ident hd_rev)
  with py_int_decimal [OF assms(3)] show ?thesis
    by (auto simp: epoch_after_last_eq_def)
qed

lemma epoch_rules_on_plain_names:
  assumes "name p = ''epoch='' @ decimal N @ ''.ckpt''"
    and "length (decimal N) \<le> int_max_str_digits"
  shows "epoch_after_last_eq p = Inr (int N) \<and> epoch_after_first_eq p = Inr (int N)"
proof -
  have "epoch_after_last_eq p = Inr (int N)"
    using epoch_after_last_eq_named [of p "''epoch''" N] assms by simp
  moreover have "epoch_after_first_eq p = Inr (int N)"
    using epoch_after_first_eq_named [of p N "[]"] assms by simp
  ultimately show ?thesis by simp
qed

lemma epoch_rules_on_step_names:
  assumes "name p = ''epoch='' @ decimal N @ ''-step='' @ decimal S @ ''.ckpt''"
    and "length (decimal N) \<le> int_max_str_digits"
    and "length (decimal S) \<le> int_max_str_digits"
  shows "epoch_after_last_eq p = Inr (int S) \<and> epoch_after_first_eq p = Inr (int N)"
proof -
  have dgN: "\<forall>c\<in>set (decimal N). digit_val c \<noteq> None"
    and dgS: "\<forall>c\<in>set (decimal S). digit_val c \<noteq> None"
    using decimal_digits by simp_all
  have nodot: "CHR ''.'' \<notin> set (decimal N)" "CHR ''.'' \<notin> set (decimal S)"
    using dgN dgS digit_not_special(6) by blast+
  have "epoch_after_last_eq p = Inr (int S)"
    using epoch_after_last_eq_named [of p "''epoch='' @ decimal N @ ''-step''" S] assms nodot
    by simp
  moreover have "epoch_after_first_eq p = Inr (int N)"
    using epoch_after_first_eq_named [of p N "''-step='' @ decimal S"] assms nodot by simp
  ultimately show ?thesis by simp
qed

subsection \<open>The two epoch-parsing expressions\<close>

text \<open>
  C1. The claim is that the scanner of the resume-last branch reads the same epoch off a
  checkpoint name as the evaluate-only and explicit-resume branches do. The two later
  branches use one and the same expression, but the scanner uses another: on the name
  \<open>epoch=3-step=100.ckpt\<close> the scanner reads 100 (the text after the last \<open>'='\<close>), while the
  other two branches read 3 (the text after the first \<open>'='\<close>, cut at \<open>'-'\<close>). On a run
  whose checkpoints are \<open>epoch=0-step=9.ckpt\<close> and \<open>epoch=1-step=19.ckpt\<close>, resume-last
  starts at epoch 19, and the explicit resume from the second checkpoint at epoch 1.
\<close>

theorem epoch_rules_differ:
  "epoch_after_last_eq (Path ''epoch=3-step=100.ckpt'') = Inr 100 \<and>
   epoch_after_first_eq (Path ''epoch=3-step=100.ckpt'') = Inr 3 \<and>
   resume_or_start stepped clock (Path ''logs'') (Some ''last'') True 10 None =
     Inr (stepped, Path ''logs/run_1'',
          Some (Path ''logs/run_1/checkpoints/epoch=1-step=19.ckpt''), 29, 19) \<and>
   resume_or_start stepped clock (Path ''logs'')
       (Some ''logs/run_1/checkpoints/epoch=1-step=19.ckpt'') True 10 None =
     Inr (stepped, Path ''logs/run_1'',
          Some (Path ''logs/run_1/checkpoints/epoch=1-step=19.ckpt''), 11, 1)"
  by code_simp

subsection \<open>Resume-last without runs\<close>

text \<open>
  C8. When the results root has no entry matching \<open>run_*\<close>, a resume-last invocation fails:
  \<open>run_paths[-1]\<close> raises \<open>IndexError\<close> on the empty list, in \<open>resume_or_start\<close> and so in
  \<open>main\<close> for every model. No run directory is created and no plan is returned. (The
  program has no exception classes of its own; this \<open>IndexError\<close> is the failure that the
  specification calls \<open>NoRunsFoundError\<close>.)
\<close>

theorem resume_last_no_runs:
  assumes "glob fs results_path run_star = []"
  shows "resume_or_start fs now results_path (Some ''last'') True num_epochs load_checkpoint
           = Inl IndexError \<and>
         main_plan float_of m fs now results_path (Some ''last'') True num_epochs
           load_checkpoint = Inl IndexError"
  using assms by (simp add: resume_or_start_def main_plan_def)

theorem resume_last_no_runs_witness:
  "glob no_runs (Path ''logs'') run_star = [] \<and>
   resume_or_start no_runs clock (Path ''logs'') (Some ''last'') True 10 None
     = Inl IndexError \<and>
   main_plan decimal_literal UNet no_runs clock (Path ''logs'') (Some ''last'') True 10 None
     = Inl IndexError"
proof -
  have h: "glob no_runs (Path ''logs'') run_star = []"
    by code_simp
  show ?thesis
    using h resume_last_no_runs [OF h, of clock 10 None decimal_literal UNet] by simp
qed

subsection \<open>Explicit resume\<close>



subsection \<open>Scanning a checkpoint directory\<close>

text \<open>
  Since splitting never yields the empty list, the scanner's expression can only fail in
  \<open>int\<close>.
\<close>

lemma epoch_after_last_eq_error:
  "epoch_after_last_eq x = Inl e \<Longrightarrow> e = ValueError"
  using split_from_nonempty [of "''=''" "[]" "stem x"]
  by (auto simp: epoch_after_last_eq_def py_split_def split: list.splits option.splits)

lemma find_snoc:
  "List.find P (xs @ [x]) =
     (case List.find P xs of None \<Rightarrow> (if P x then Some x else None) | Some y \<Rightarrow> Some y)"
  by (induction xs) auto

lemma epoch_ckpt_from_ok:
  assumes "\<forall>x\<in>set xs. epoch_after_last_eq x \<noteq> Inl ValueError"
  shows "\<exists>d'. epoch_ckpt_from d xs = Inr d' \<and>
           (\<forall>k. map_of d' k =
              (case List.find (\<lambda>x. epoch_after_last_eq x = Inr k) (rev xs) of
                 None \<Rightarrow> map_of d k
               | Some x \<Rightarrow> Some x))"
  using assms
proof (induction xs arbitrary: d)
  case Nil
  then show ?case by simp
next
  case (Cons x xs)
  from Cons.prems obtain k0 where k0: "epoch_after_last_eq x = Inr k0"
    using epoch_after_last_eq_error [of x] by (cases "epoch_after_last_eq x") auto
  from Cons.prems have "\<forall>y\<in>set xs. epoch_after_last_eq y \<noteq> Inl ValueError" by simp
  from Cons.IH [OF this, of "AList.update k0 x d"]
  obtain d' where d': "epoch_ckpt_from (AList.update k0 x d) xs = Inr d'"
    and m: "\<forall>k. map_of d' k =
              (case List.find (\<lambda>x. epoch_after_last_eq x = Inr k) (rev xs) of
                 None \<Rightarrow> map_of (AList.update k0 x d) k
               | Some x \<Rightarrow> Some x)"
    by blast
  have "epoch_ckpt_from d (x # xs) = Inr d'" using k0 d' by simp
  moreover have "map_of d' k =
              (case List.find (\<lambda>x. epoch_after_last_eq x = Inr k) (rev (x # xs)) of
                 None \<Rightarrow> map_of d k
               | Some x \<Rightarrow> Some x)" for k
    using m [rule_format, of k] k0
    by (auto simp: find_snoc update_conv' split: option.splits)
  ultimately show ?case by blast
qed

lemma epoch_ckpt_from_fail:
  assumes "\<exists>x\<in>set xs. epoch_after_last_eq x = Inl ValueError"
  shows "epoch_ckpt_from d xs = Inl ValueError"
  using assms
proof (induction xs arbitrary: d)
  case Nil
  then show ?case by simp
next
  case (Cons x xs)
  show ?case
  proof (cases "epoch_after_last_eq x")
    case (Inl e)
    then show ?thesis using epoch_after_last_eq_error [OF Inl] by simp
  next
    case (Inr k)
    with Cons.prems have "\<exists>y\<in>set xs. epoch_after_last_eq y = Inl ValueError" by auto
    from Cons.IH [OF this] Inr show ?thesis by simp
  qed
qed

text \<open>
  C7. The claim is that scanning never fails and skips entries whose names do not parse.
  The dictionary comprehension of line 71 has no such guard: on the directory holding
  \<open>epoch=0.ckpt\<close> and \<open>last.ckpt\<close> the call \<open>int('last')\<close> raises \<open>ValueError\<close>, and the
  resume-last resolution fails with it.
\<close>

theorem scan_fails_on_unparsable_name:
  "scan_checkpoints with_last_ckpt (Path ''logs/run_1'') = Inl ValueError \<and>
   resume_or_start with_last_ckpt clock (Path ''logs'') (Some ''last'') True 10 None
     = Inl ValueError"
  by code_simp

text \<open>
  C7, as the code has it: nothing is skipped. The scan fails with \<open>ValueError\<close> as soon
  as the scanner cannot read an integer off the name of one entry of the checkpoint
  directory; when it reads an integer off every entry's name, the scan returns the
  mapping of all entries under the integers read, where an integer is mapped to the entry
  enumerated last among those that yield it.
\<close>

theorem scan_checkpoints_all_or_nothing:
  "if \<forall>x\<in>set (glob fs (joinpath run ''checkpoints'') star).
        epoch_after_last_eq x \<noteq> Inl ValueError
   then \<exists>d. scan_checkpoints fs run = Inr d \<and>
          (\<forall>k. map_of d k =
             List.find (\<lambda>x. epoch_after_last_eq x = Inr k)
               (rev (glob fs (joinpath run ''checkpoints'') star)))
   else scan_checkpoints fs run = Inl ValueError"
proof (cases "\<forall>x\<in>set (glob fs (joinpath run ''checkpoints'') star).
        epoch_after_last_eq x \<noteq> Inl ValueError")
  case True
  from epoch_ckpt_from_ok [OF True, of "[]"]
  obtain d where a: "scan_checkpoints fs run = Inr d"
    and b: "\<forall>k. map_of d k =
              (case List.find (\<lambda>x. epoch_after_last_eq x = Inr k)
                      (rev (glob fs (joinpath run ''checkpoints'') star)) of
                 None \<Rightarrow> map_of [] k
               | Some x \<Rightarrow> Some x)"
    unfolding scan_checkpoints_def by blast
  have "map_of d k = List.find (\<lambda>x. epoch_after_last_eq x = Inr k)
                      (rev (glob fs (joinpath run ''checkpoints'') star))" for k
    using b [rule_format, of k] by (simp split: option.splits)
  with a have ex: "\<exists>d. scan_checkpoints fs run = Inr d \<and>
          (\<forall>k. map_of d k =
             List.find (\<lambda>x. epoch_after_last_eq x = Inr k)
               (rev (glob fs (joinpath run ''checkpoints'') star)))"
    by blast
  show ?thesis unfolding if_P [OF True] by (rule ex)
next
  case False
  then have "\<exists>x\<in>set (glob fs (joinpath run ''checkpoints'') star).
        epoch_after_last_eq x = Inl ValueError" by blast
  from epoch_ckpt_from_fail [OF this, of "[]"]
  have err: "scan_checkpoints fs run = Inl ValueError"
    by (simp add: scan_checkpoints_def)
  show ?thesis unfolding if_not_P [OF False] by (rule err)
qed

theorem scan_checkpoints_all_or_nothing_witness:
  "map epoch_after_last_eq (glob two_epochs (joinpath (Path ''logs/run_1'') ''checkpoints'') star)
     = [Inr 0, Inr 1] \<and>
   (\<exists>d. scan_checkpoints two_epochs (Path ''logs/run_1'') = Inr d \<and>
        map_of d 0 = Some (Path ''logs/run_1/checkpoints/epoch=0.ckpt'') \<and>
        map_of d 1 = Some (Path ''logs/run_1/checkpoints/epoch=1.ckpt'') \<and>
        map_of d 2 = None)"
proof -
  let ?xs = "glob two_epochs (joinpath (Path ''logs/run_1'') ''checkpoints'') star"
  have h: "\<forall>x\<in>set ?xs. epoch_after_last_eq x \<noteq> Inl ValueError"
    by code_simp
  have f0: "List.find (\<lambda>x. epoch_after_last_eq x = Inr 0) (rev ?xs) = Some (Path ''logs/run_1/checkpoints/epoch=0.ckpt'')"
    by code_simp
  have f1: "List.find (\<lambda>x. epoch_after_last_eq x = Inr 1) (rev ?xs) = Some (Path ''logs/run_1/checkpoints/epoch=1.ckpt'')"
    by code_simp
  have f2: "List.find (\<lambda>x. epoch_after_last_eq x = Inr 2) (rev ?xs) = None"
    by code_simp
  from scan_checkpoints_all_or_nothing [of two_epochs "Path ''logs/run_1''"] h
  obtain d where "scan_checkpoints two_epochs (Path ''logs/run_1'') = Inr d"
    and "\<forall>k. map_of d k = List.find (\<lambda>x. epoch_after_last_eq x = Inr k) (rev ?xs)"
    by auto
  moreover have "map epoch_after_last_eq ?xs = [Inr 0, Inr 1]"
    by code_simp
  ultimately show ?thesis using f0 f1 f2 by auto
qed

subsection \<open>Reading the ledger\<close>

text \<open>
  The loop of lines 225 to 229 visits every line: a line whose first field is not an
  integer raises \<open>ValueError\<close> wherever it stands, and each line whose first field equals
  the start epoch assigns \<open>init_learning_rate\<close> anew.
\<close>

lemma restore_lr_no_match:
  assumes "\<forall>l\<in>set ls. py_int (hd (epoch_lr l)) \<noteq> Some e"
  shows "restore_lr float_of e cur ls =
           (if \<forall>l\<in>set ls. py_int (hd (epoch_lr l)) \<noteq> None then Inr cur else Inl ValueError)"
  using assms
proof (induction ls)
  case Nil
  then show ?case by simp
next
  case (Cons l ls)
  obtain x xs where x: "epoch_lr l = x # xs"
    using epoch_lr_nonempty [of l] by (cases "epoch_lr l") auto
  with Cons show ?case
    by (cases "py_int x") auto
qed

lemma restore_lr_append:
  assumes "restore_lr float_of e cur pre = Inr c"
  shows "restore_lr float_of e cur (pre @ post) = restore_lr float_of e c post"
  using assms
proof (induction pre arbitrary: cur)
  case Nil
  then show ?case by simp
next
  case (Cons l pre)
  then show ?case
    by (auto split: list.splits option.splits if_splits)
qed

lemma restore_lr_Some:
  assumes "restore_lr float_of e cur ls = Inr (Some v)"
  shows "(cur = Some v \<and> (\<forall>l\<in>set ls. py_int (hd (epoch_lr l)) \<noteq> Some e)) \<or>
         (\<exists>pre l post. ls = pre @ l # post \<and> py_int (hd (epoch_lr l)) = Some e \<and>
            1 < length (epoch_lr l) \<and> float_of (epoch_lr l ! 1) = Some v \<and>
            (\<forall>l'\<in>set post. py_int (hd (epoch_lr l')) \<noteq> Some e))"
  using assms
proof (induction ls arbitrary: cur)
  case Nil
  then show ?case by simp
next
  case (Cons l ls)
  obtain x xs where x: "epoch_lr l = x # xs"
    using epoch_lr_nonempty [of l] by (cases "epoch_lr l") auto
  from Cons.prems x obtain k where k: "py_int x = Some k"
    by (cases "py_int x") auto
  show ?case
  proof (cases "k = e")
    case True
    from Cons.prems x k True obtain y ys w where xs: "xs = y # ys" and w: "float_of y = Some w"
      and rec: "restore_lr float_of e (Some w) ls = Inr (Some v)"
      by (auto split: list.splits option.splits)
    from Cons.IH [OF rec] show ?thesis
    proof
      assume a: "Some w = Some v \<and> (\<forall>l\<in>set ls. py_int (hd (epoch_lr l)) \<noteq> Some e)"
      have "l # ls = [] @ l # ls \<and> py_int (hd (epoch_lr l)) = Some e \<and>
            1 < length (epoch_lr l) \<and> float_of (epoch_lr l ! 1) = Some v \<and>
            (\<forall>l'\<in>set ls. py_int (hd (epoch_lr l')) \<noteq> Some e)"
        using a x k True xs w by simp
      then show ?thesis by blast
    next
      assume "\<exists>pre l' post. ls = pre @ l' # post \<and> py_int (hd (epoch_lr l')) = Some e \<and>
            1 < length (epoch_lr l') \<and> float_of (epoch_lr l' ! 1) = Some v \<and>
            (\<forall>l'\<in>set post. py_int (hd (epoch_lr l')) \<noteq> Some e)"
      then obtain pre l' post where "ls = pre @ l' # post" "py_int (hd (epoch_lr l')) = Some e"
            "1 < length (epoch_lr l')" "float_of (epoch_lr l' ! 1) = Some v"
            "\<forall>l'\<in>set post. py_int (hd (epoch_lr l')) \<noteq> Some e"
        by blast
      then have "l # ls = (l # pre) @ l' # post \<and> py_int (hd (epoch_lr l')) = Some e \<and>
            1 < length (epoch_lr l') \<and> float_of (epoch_lr l' ! 1) = Some v \<and>
            (\<forall>l'\<in>set post. py_int (hd (epoch_lr l')) \<noteq> Some e)"
        by simp
      then show ?thesis by blast
    qed
  next
    case False
    from Cons.prems x k False have rec: "restore_lr float_of e cur ls = Inr (Some v)"
      by simp
    from Cons.IH [OF rec] show ?thesis
    proof
      assume "cur = Some v \<and> (\<forall>l\<in>set ls. py_int (hd (epoch_lr l)) \<noteq> Some e)"
      then show ?thesis using x k False by simp
    next
      assume "\<exists>pre l' post. ls = pre @ l' # post \<and> py_int (hd (epoch_lr l')) = Some e \<and>
            1 < length (epoch_lr l') \<and> float_of (epoch_lr l' ! 1) = Some v \<and>
            (\<forall>l'\<in>set post. py_int (hd (epoch_lr l')) \<noteq> Some e)"
      then obtain pre l' post where "ls = pre @ l' # post" "py_int (hd (epoch_lr l')) = Some e"
            "1 < length (epoch_lr l')" "float_of (epoch_lr l' ! 1) = Some v"
            "\<forall>l'\<in>set post. py_int (hd (epoch_lr l')) \<noteq> Some e"
        by blast
      then have "l # ls = (l # pre) @ l' # post \<and> py_int (hd (epoch_lr l')) = Some e \<and>
            1 < length (epoch_lr l') \<and> float_of (epoch_lr l' ! 1) = Some v \<and>
            (\<forall>l'\<in>set post. py_int (hd (epoch_lr l')) \<noteq> Some e)"
        by simp
      then show ?thesis by blast
    qed
  qed
qed

lemma main_plan_restored:
  assumes "main_plan float_of m fs now results_path resume train num_epochs load_checkpoint
             = Inr (fs', pl)"
    and "restored_learning_rate pl = Some v"
  shows "restores_lr m \<and> resume \<noteq> None \<and>
         (\<exists>ls. open_lines fs' (joinpath (run_path pl) ''lrs.txt'') = Inr ls \<and>
                restore_lr float_of (start_epoch pl) None ls = Inr (Some v))"
  using assms
  by (cases m)
     (auto simp: main_plan_def Let_def restores_lr_def
           split: if_splits sum.splits option.splits prod.splits)

lemma restore_lr_well_formed:
  assumes "\<forall>l\<in>set ls. \<exists>k. py_int (hd (epoch_lr l)) = Some k \<and>
             (k = e \<longrightarrow> 1 < length (epoch_lr l) \<and> float_of (epoch_lr l ! 1) \<noteq> None)"
  shows "\<exists>c. restore_lr float_of e cur ls = Inr c"
  using assms
proof (induction ls arbitrary: cur)
  case Nil
  then show ?case by simp
next
  case (Cons l ls)
  from Cons.prems obtain k where k: "py_int (hd (epoch_lr l)) = Some k"
    and v: "k = e \<longrightarrow> 1 < length (epoch_lr l) \<and> float_of (epoch_lr l ! 1) \<noteq> None"
    by auto
  from Cons.prems have rest: "\<forall>l\<in>set ls. \<exists>k. py_int (hd (epoch_lr l)) = Some k \<and>
             (k = e \<longrightarrow> 1 < length (epoch_lr l) \<and> float_of (epoch_lr l ! 1) \<noteq> None)"
    by simp
  show ?case
  proof (cases "k = e")
    case True
    with v obtain a b more w where "epoch_lr l = a # b # more" and "float_of b = Some w"
      by (cases "epoch_lr l"; cases "tl (epoch_lr l)") auto
    with k True Cons.IH [OF rest, of "Some w"] show ?thesis by simp
  next
    case False
    obtain a more where "epoch_lr l = a # more"
      using epoch_lr_nonempty [of l] by (cases "epoch_lr l") auto
    with k False Cons.IH [OF rest, of cur] show ?thesis by simp
  qed
qed

lemma restore_lr_last_match:
  assumes "\<forall>l'\<in>set pre. \<exists>k. py_int (hd (epoch_lr l')) = Some k \<and>
             (k = e \<longrightarrow> 1 < length (epoch_lr l') \<and> float_of (epoch_lr l' ! 1) \<noteq> None)"
    and "py_int (hd (epoch_lr l)) = Some e"
    and "1 < length (epoch_lr l)"
    and "float_of (epoch_lr l ! 1) = Some w"
    and "\<forall>l'\<in>set post. \<exists>k. py_int (hd (epoch_lr l')) = Some k \<and> k \<noteq> e"
  shows "restore_lr float_of e cur (pre @ l # post) = Inr (Some w)"
proof -
  from restore_lr_well_formed [OF assms(1), of cur] obtain c
    where "restore_lr float_of e cur pre = Inr c" by blast
  then have a: "restore_lr float_of e cur (pre @ l # post) = restore_lr float_of e c (l # post)"
    by (rule restore_lr_append)
  obtain x y more where "epoch_lr l = x # y # more"
    using assms(3) by (cases "epoch_lr l"; cases "tl (epoch_lr l)") auto
  with assms(2,4) have b: "restore_lr float_of e c (l # post) = restore_lr float_of e (Some w) post"
    by simp
  from assms(5) have nm: "\<forall>l'\<in>set post. py_int (hd (epoch_lr l')) \<noteq> Some e"
    and wf: "\<forall>l'\<in>set post. py_int (hd (epoch_lr l')) \<noteq> None"
    by auto
  from restore_lr_no_match [OF nm, of float_of "Some w"] wf
  have "restore_lr float_of e (Some w) post = Inr (Some w)" by simp
  with a b show ?thesis by simp
qed

text \<open>
  C10. The claim is that every mid-training resume on a ledger with several lines for the
  start epoch restores the rate of the last of them. The block of \<open>simvp\<close> never opens the
  ledger: on a ledger with the lines \<open>1: 0.05\<close> and \<open>1: 0.02\<close> for the start epoch 1 its
  plan carries no restored learning rate.
\<close>

theorem simvp_ignores_repeated_ledger_lines:
  "open_lines repeated_ledger (joinpath (Path ''logs/run_1'') ''lrs.txt'')
     = Inr [''0: 0.1\<newline>'', ''1: 0.05\<newline>'', ''1: 0.02\<newline>''] \<and>
   map (\<lambda>l. py_int (hd (epoch_lr l))) [''0: 0.1\<newline>'', ''1: 0.05\<newline>'', ''1: 0.02\<newline>'']
     = [Some 0, Some 1, Some 1] \<and>
   main_plan decimal_literal SimVP repeated_ledger clock (Path ''logs'') (Some ''last'') True 10
       None =
     Inr (repeated_ledger,
          \<lparr> run_path = Path ''logs/run_1'',
            checkpoint_to_load = Some (Path ''logs/run_1/checkpoints/epoch=1.ckpt''),
            start_epoch = 1, end_epoch = 11, restored_learning_rate = None \<rparr>)"
  by code_simp

text \<open>
  C10, as the code has it. For every model: whenever the plan carries a restored rate,
  the ledger of the run has a line whose first field is the start epoch, no later line
  has that first field, and the restored rate is \<open>float\<close> of the second field of that
  line. For the models \<open>convlstm\<close>, \<open>convstar\<close>, \<open>unet\<close> and \<open>utae\<close>: when a resume
  argument is given, \<open>resume_or_start\<close> returns the start epoch, the ledger can be read,
  every line of it has an integer first field, every line for the start epoch has a
  second field that \<open>float\<close> accepts, and there is a line for the start epoch, then the
  plan is resolved and carries the rate of the last line for the start epoch in file
  order.
\<close>

theorem restored_rate_is_last_match:
  "(main_plan float_of m fs now results_path resume train num_epochs load_checkpoint
      = Inr (fs', pl) \<and>
    restored_learning_rate pl = Some v \<longrightarrow>
      (\<exists>pre l post.
         open_lines fs' (joinpath (run_path pl) ''lrs.txt'') = Inr (pre @ l # post) \<and>
         py_int (hd (epoch_lr l)) = Some (start_epoch pl) \<and>
         1 < length (epoch_lr l) \<and> float_of (epoch_lr l ! 1) = Some v \<and>
         (\<forall>l'\<in>set post. py_int (hd (epoch_lr l')) \<noteq> Some (start_epoch pl)))) \<and>
   (restores_lr m \<and> resume \<noteq> None \<and>
    resume_or_start fs now results_path resume train num_epochs load_checkpoint
      = Inr (fs', rp, ckpt, max_epoch, init_epoch) \<and>
    open_lines fs' (joinpath rp ''lrs.txt'') = Inr (pre' @ l' # post') \<and>
    (\<forall>x\<in>set pre'. \<exists>k. py_int (hd (epoch_lr x)) = Some k \<and>
       (k = init_epoch \<longrightarrow> 1 < length (epoch_lr x) \<and> float_of (epoch_lr x ! 1) \<noteq> None)) \<and>
    py_int (hd (epoch_lr l')) = Some init_epoch \<and>
    1 < length (epoch_lr l') \<and> float_of (epoch_lr l' ! 1) = Some w \<and>
    (\<forall>x\<in>set post'. \<exists>k. py_int (hd (epoch_lr x)) = Some k \<and> k \<noteq> init_epoch) \<longrightarrow>
      main_plan float_of m fs now results_path resume train num_epochs load_checkpoint =
        Inr (fs', \<lparr> run_path = rp, checkpoint_to_load = ckpt, start_epoch = init_epoch,
                   end_epoch = max_epoch, restored_learning_rate = Some w \<rparr>))"
proof (intro conjI impI)
  assume a: "main_plan float_of m fs now results_path resume train num_epochs load_checkpoint
      = Inr (fs', pl) \<and> restored_learning_rate pl = Some v"
  from main_plan_restored [of float_of m fs now results_path resume train num_epochs
      load_checkpoint fs' pl v] a
  obtain ls
    where o: "open_lines fs' (joinpath (run_path pl) ''lrs.txt'') = Inr ls"
      and r: "restore_lr float_of (start_epoch pl) None ls = Inr (Some v)"
    by blast
  from restore_lr_Some [OF r] o
  show "\<exists>pre l post.
         open_lines fs' (joinpath (run_path pl) ''lrs.txt'') = Inr (pre @ l # post) \<and>
         py_int (hd (epoch_lr l)) = Some (start_epoch pl) \<and>
         1 < length (epoch_lr l) \<and> float_of (epoch_lr l ! 1) = Some v \<and>
         (\<forall>l'\<in>set post. py_int (hd (epoch_lr l')) \<noteq> Some (start_epoch pl))"
    by auto
next
  assume b: "restores_lr m \<and> resume \<noteq> None \<and>
    resume_or_start fs now results_path resume train num_epochs load_checkpoint
      = Inr (fs', rp, ckpt, max_epoch, init_epoch) \<and>
    open_lines fs' (joinpath rp ''lrs.txt'') = Inr (pre' @ l' # post') \<and>
    (\<forall>x\<in>set pre'. \<exists>k. py_int (hd (epoch_lr x)) = Some k \<and>
       (k = init_epoch \<longrightarrow> 1 < length (epoch_lr x) \<and> float_of (epoch_lr x ! 1) \<noteq> None)) \<and>
    py_int (hd (epoch_lr l')) = Some init_epoch \<and>
    1 < length (epoch_lr l') \<and> float_of (epoch_lr l' ! 1) = Some w \<and>
    (\<forall>x\<in>set post'. \<exists>k. py_int (hd (epoch_lr x)) = Some k \<and> k \<noteq> init_epoch)"
  then have rs: "resume_or_start fs now results_path resume train num_epochs load_checkpoint
      = Inr (fs', rp, ckpt, max_epoch, init_epoch)"
    and ol: "open_lines fs' (joinpath rp ''lrs.txt'') = Inr (pre' @ l' # post')"
    and res: "resume \<noteq> None"
    by simp_all
  from b have m: "m \<noteq> TempCNN" "m \<noteq> SimVP"
    by (auto simp: restores_lr_def)
  from rs have g: "\<not> (\<not> train \<and> load_checkpoint = None)"
    by (cases train; cases load_checkpoint) (auto simp: resume_or_start_def)
  from b have "restore_lr float_of init_epoch None (pre' @ l' # post') = Inr (Some w)"
    by (intro restore_lr_last_match) simp_all
  with rs ol res m g
  show "main_plan float_of m fs now results_path resume train num_epochs load_checkpoint =
        Inr (fs', \<lparr> run_path = rp, checkpoint_to_load = ckpt, start_epoch = init_epoch,
                   end_epoch = max_epoch, restored_learning_rate = Some w \<rparr>)"
    by (simp add: main_plan_def Let_def)
qed

text \<open>
  In the example the ledger has the two lines \<open>1: 0.05\<close> and \<open>1: 0.02\<close> for the start
  epoch 1, in this order.
\<close>

theorem restored_rate_is_last_match_witness:
  "main_plan decimal_literal ConvSTAR repeated_ledger clock (Path ''logs'') (Some ''last'')
       True 10 None =
     Inr (repeated_ledger,
          \<lparr> run_path = Path ''logs/run_1'',
            checkpoint_to_load = Some (Path ''logs/run_1/checkpoints/epoch=1.ckpt''),
            start_epoch = 1, end_epoch = 11, restored_learning_rate = Some ''0.02'' \<rparr>) \<and>
   open_lines repeated_ledger (joinpath (Path ''logs/run_1'') ''lrs.txt'')
     = Inr [''0: 0.1\<newline>'', ''1: 0.05\<newline>'', ''1: 0.02\<newline>''] \<and>
   map (\<lambda>l. py_int (hd (epoch_lr l))) [''0: 0.1\<newline>'', ''1: 0.05\<newline>'', ''1: 0.02\<newline>'']
     = [Some 0, Some 1, Some 1] \<and>
   map (\<lambda>l. decimal_literal (epoch_lr l ! 1)) [''0: 0.1\<newline>'', ''1: 0.05\<newline>'', ''1: 0.02\<newline>'']
     = [Some ''0.1'', Some ''0.05'', Some ''0.02''] \<and>
   (\<exists>pre l post.
      open_lines repeated_ledger (joinpath (Path ''logs/run_1'') ''lrs.txt'')
        = Inr (pre @ l # post) \<and>
      py_int (hd (epoch_lr l)) = Some 1 \<and> decimal_literal (epoch_lr l ! 1) = Some ''0.02'' \<and>
      (\<forall>l'\<in>set post. py_int (hd (epoch_lr l')) \<noteq> Some 1))"
proof -
  let ?pl = "\<lparr> run_path = Path ''logs/run_1'',
            checkpoint_to_load = Some (Path ''logs/run_1/checkpoints/epoch=1.ckpt''),
            start_epoch = 1, end_epoch = 11, restored_learning_rate = Some ''0.02'' \<rparr>"
  let ?pre = "[''0: 0.1\<newline>'', ''1: 0.05\<newline>'']"
  let ?l = "''1: 0.02\<newline>''"
  have h1: "restores_lr ConvSTAR" by (simp add: restores_lr_def)
  have h3: "resume_or_start repeated_ledger clock (Path ''logs'') (Some ''last'') True 10 None =
     Inr (repeated_ledger, Path ''logs/run_1'',
          Some (Path ''logs/run_1/checkpoints/epoch=1.ckpt''), 11, 1)"
    by code_simp
  have h4: "open_lines repeated_ledger (joinpath (Path ''logs/run_1'') ''lrs.txt'')
              = Inr (?pre @ ?l # [])"
    by code_simp
  have e: "map (\<lambda>l. py_int (hd (epoch_lr l))) (?pre @ [?l]) = [Some 0, Some 1, Some 1]"
    by code_simp
  have f: "map (\<lambda>l. decimal_literal (epoch_lr l ! 1)) (?pre @ [?l])
             = [Some ''0.1'', Some ''0.05'', Some ''0.02'']"
    by code_simp
  have n: "map (\<lambda>l. length (epoch_lr l)) (?pre @ [?l]) = [2, 2, 2]"
    by code_simp
  have h5: "\<forall>x\<in>set ?pre. \<exists>k. py_int (hd (epoch_lr x)) = Some k \<and>
       (k = 1 \<longrightarrow> 1 < length (epoch_lr x) \<and> decimal_literal (epoch_lr x ! 1) \<noteq> None)"
    using e f n by simp
  have h6: "py_int (hd (epoch_lr ?l)) = Some 1" using e by simp
  have h7: "1 < length (epoch_lr ?l)" using n by simp
  have h8: "decimal_literal (epoch_lr ?l ! 1) = Some ''0.02''" using f by simp
  have h9: "\<forall>x\<in>set []. \<exists>k. py_int (hd (epoch_lr x)) = Some k \<and> k \<noteq> (1::int)" by simp
  note inst = restored_rate_is_last_match
      [where float_of = decimal_literal and m = ConvSTAR and fs = repeated_ledger
         and now = clock and results_path = "Path ''logs''" and resume = "Some ''last''"
         and train = True and num_epochs = 10 and load_checkpoint = None
         and fs' = repeated_ledger and pl = ?pl and v = "''0.02''"
         and rp = "Path ''logs/run_1''"
         and ckpt = "Some (Path ''logs/run_1/checkpoints/epoch=1.ckpt'')"
         and max_epoch = 11 and init_epoch = 1 and pre' = ?pre and l' = ?l and post' = "[]"
         and w = "''0.02''"]
  from inst [THEN conjunct2] h1 h3 h4 h5 h6 h7 h8 h9
  have mp: "main_plan decimal_literal ConvSTAR repeated_ledger clock (Path ''logs'')
              (Some ''last'') True 10 None = Inr (repeated_ledger, ?pl)"
    by simp
  have rp: "run_path ?pl = Path ''logs/run_1''" and se: "start_epoch ?pl = 1"
    and r: "restored_learning_rate ?pl = Some ''0.02''"
    by simp_all
  from inst [THEN conjunct1, unfolded rp se] mp r
  have ex: "\<exists>pre l post.
      open_lines repeated_ledger (joinpath (Path ''logs/run_1'') ''lrs.txt'')
        = Inr (pre @ l # post) \<and>
      py_int (hd (epoch_lr l)) = Some 1 \<and> decimal_literal (epoch_lr l ! 1) = Some ''0.02'' \<and>
      (\<forall>l'\<in>set post. py_int (hd (epoch_lr l')) \<noteq> Some 1)"
    by blast
  from mp h4 e f ex show ?thesis by simp
qed

text \<open>
  C2. The claim is that every mid-training resume whose start epoch has no ledger line
  fails. The block of \<open>simvp\<close> never opens the ledger: with checkpoints for the epochs 0
  and 1 and a ledger that only has a line for epoch 0, its resume-last resolution
  succeeds, without a restored learning rate.
\<close>

theorem simvp_resumes_without_ledger_entry:
  "map (\<lambda>l. py_int (hd (epoch_lr l))) [''0: 0.1\<newline>''] = [Some 0] \<and>
   open_lines short_ledger (joinpath (Path ''logs/run_1'') ''lrs.txt'') = Inr [''0: 0.1\<newline>''] \<and>
   main_plan decimal_literal SimVP short_ledger clock (Path ''logs'') (Some ''last'') True 10
       None =
     Inr (short_ledger,
          \<lparr> run_path = Path ''logs/run_1'',
            checkpoint_to_load = Some (Path ''logs/run_1/checkpoints/epoch=1.ckpt''),
            start_epoch = 1, end_epoch = 11, restored_learning_rate = None \<rparr>)"
  by code_simp

text \<open>
  C2, as the code has it: for the models \<open>convlstm\<close>, \<open>convstar\<close>, \<open>unet\<close> and \<open>utae\<close>,
  when a resume argument is given, \<open>resume_or_start\<close> returns the start epoch, and no line
  of the run's ledger has the start epoch as its first field, the resolution fails: with
  the error of \<open>open\<close> when the ledger cannot be opened (\<open>FileNotFoundError\<close> when the run
  has no \<open>lrs.txt\<close>), with \<open>UnboundLocalError\<close> at the use of the never assigned
  \<open>init_learning_rate\<close> when the first field of every line is an integer (the failure that
  the specification calls \<open>LearningRateNotFoundError\<close>), and with the \<open>ValueError\<close> of \<open>int\<close>
  otherwise. No default and no neighbouring entry is used.
\<close>

theorem missing_ledger_entry_fails:
  assumes "restores_lr m" and "resume \<noteq> None"
    and "resume_or_start fs now results_path resume train num_epochs load_checkpoint
           = Inr (fs', rp, ckpt, max_epoch, init_epoch)"
    and "\<forall>ls. open_lines fs' (joinpath rp ''lrs.txt'') = Inr ls \<longrightarrow>
           (\<forall>l\<in>set ls. py_int (hd (epoch_lr l)) \<noteq> Some init_epoch)"
  shows "main_plan float_of m fs now results_path resume train num_epochs load_checkpoint =
           Inl (case open_lines fs' (joinpath rp ''lrs.txt'') of
                  Inl e \<Rightarrow> e
                | Inr ls \<Rightarrow>
                    if \<forall>l\<in>set ls. py_int (hd (epoch_lr l)) \<noteq> None
                    then UnboundLocalError else ValueError)"
proof -
  from assms(3) have g: "\<not> (\<not> train \<and> load_checkpoint = None)"
    by (cases train; cases load_checkpoint) (auto simp: resume_or_start_def)
  from assms(1) have m: "m \<noteq> TempCNN" "m \<noteq> SimVP"
    by (auto simp: restores_lr_def)
  show ?thesis
  proof (cases "open_lines fs' (joinpath rp ''lrs.txt'')")
    case (Inl e)
    with g m assms(2,3) show ?thesis
      by (auto simp: main_plan_def Let_def)
  next
    case (Inr ls)
    with assms(4) have nm: "\<forall>l\<in>set ls. py_int (hd (epoch_lr l)) \<noteq> Some init_epoch"
      by blast
    show ?thesis
      using g m assms(2,3) Inr restore_lr_no_match [OF nm, of float_of None]
      by (auto simp: main_plan_def Let_def)
  qed
qed

text \<open>
  In the first example the ledger has a line for epoch 0 only and the run resumes at
  epoch 1; in the second the run of the reference has no ledger.
\<close>

theorem missing_ledger_entry_fails_witness:
  "restores_lr ConvLSTM \<and> Some ''last'' \<noteq> (None :: string option) \<and>
   resume_or_start short_ledger clock (Path ''logs'') (Some ''last'') True 10 None =
     Inr (short_ledger, Path ''logs/run_1'',
          Some (Path ''logs/run_1/checkpoints/epoch=1.ckpt''), 11, 1) \<and>
   open_lines short_ledger (joinpath (Path ''logs/run_1'') ''lrs.txt'') = Inr [''0: 0.1\<newline>''] \<and>
   map (\<lambda>l. py_int (hd (epoch_lr l))) [''0: 0.1\<newline>''] = [Some 0] \<and>
   main_plan decimal_literal ConvLSTM short_ledger clock (Path ''logs'') (Some ''last'') True
       10 None = Inl UnboundLocalError \<and>
   resume_or_start no_runs clock (Path ''logs'') (Some ''logs/run_9/checkpoints/epoch=1.ckpt'')
       True 10 None =
     Inr (no_runs, Path ''logs/run_9'',
          Some (Path ''logs/run_9/checkpoints/epoch=1.ckpt''), 11, 1) \<and>
   open_lines no_runs (joinpath (Path ''logs/run_9'') ''lrs.txt'') = Inl FileNotFoundError \<and>
   main_plan decimal_literal ConvLSTM no_runs clock (Path ''logs'')
       (Some ''logs/run_9/checkpoints/epoch=1.ckpt'') True 10 None = Inl FileNotFoundError"
proof -
  have h1: "restores_lr ConvLSTM" by (simp add: restores_lr_def)
  have h2: "Some ''last'' \<noteq> (None :: string option)" by simp
  have h3: "resume_or_start short_ledger clock (Path ''logs'') (Some ''last'') True 10 None =
     Inr (short_ledger, Path ''logs/run_1'',
          Some (Path ''logs/run_1/checkpoints/epoch=1.ckpt''), 11, 1)"
    by code_simp
  have h4: "open_lines short_ledger (joinpath (Path ''logs/run_1'') ''lrs.txt'')
              = Inr [''0: 0.1\<newline>'']"
    by code_simp
  have h7: "map (\<lambda>l. py_int (hd (epoch_lr l))) [''0: 0.1\<newline>''] = [Some 0]"
    by code_simp
  have h5: "\<forall>ls. open_lines short_ledger (joinpath (Path ''logs/run_1'') ''lrs.txt'') = Inr ls \<longrightarrow>
           (\<forall>l\<in>set ls. py_int (hd (epoch_lr l)) \<noteq> Some 1)"
    using h4 h7 by simp
  from missing_ledger_entry_fails [OF h1 h2 h3 h5, of decimal_literal] h4 h7
  have a: "main_plan decimal_literal ConvLSTM short_ledger clock (Path ''logs'') (Some ''last'')
          True 10 None = Inl UnboundLocalError"
    by simp
  let ?r = "Some ''logs/run_9/checkpoints/epoch=1.ckpt''"
  have k2: "?r \<noteq> None" by simp
  have k3: "resume_or_start no_runs clock (Path ''logs'') ?r True 10 None =
     Inr (no_runs, Path ''logs/run_9'',
          Some (Path ''logs/run_9/checkpoints/epoch=1.ckpt''), 11, 1)"
    by code_simp
  have k4: "open_lines no_runs (joinpath (Path ''logs/run_9'') ''lrs.txt'') = Inl FileNotFoundError"
    by code_simp
  have k5: "\<forall>ls. open_lines no_runs (joinpath (Path ''logs/run_9'') ''lrs.txt'') = Inr ls \<longrightarrow>
           (\<forall>l\<in>set ls. py_int (hd (epoch_lr l)) \<noteq> Some 1)"
    using k4 by simp
  from missing_ledger_entry_fails [OF h1 k2 k3 k5, of decimal_literal] k4
  have b: "main_plan decimal_literal ConvLSTM no_runs clock (Path ''logs'') ?r True 10 None
             = Inl FileNotFoundError"
    by simp
  from h1 h2 h3 h4 h7 a k3 k4 b show ?thesis by blast
qed

subsection \<open>When the learning rate is restored\<close>

text \<open>
  C4. The claim is that a restored learning rate is present exactly for a mid-training
  resume, and absent for every evaluate-only invocation, also when a resume argument is
  given. The guard of line 223 is \<open>args.resume is not None\<close> and does not look at
  \<open>args.train\<close>: an evaluate-only invocation of \<open>convlstm\<close> with \<open>--resume last\<close> reads the
  ledger of the run of its checkpoint and restores the rate of the checkpoint's epoch.
\<close>

theorem evaluate_only_with_resume_restores:
  "main_plan decimal_literal ConvLSTM two_epochs clock (Path ''logs'') (Some ''last'') False 10
       (Some ''logs/run_1/checkpoints/epoch=1.ckpt'') =
     Inr (two_epochs,
          \<lparr> run_path = Path ''logs/run_1'',
            checkpoint_to_load = Some (Path ''logs/run_1/checkpoints/epoch=1.ckpt''),
            start_epoch = 1, end_epoch = 2, restored_learning_rate = Some ''0.05'' \<rparr>)"
  by code_simp

text \<open>
  C4, as the code has it: in every resolved plan the restored learning rate is present if
  and only if a resume argument is given and the model is one of \<open>convlstm\<close>,
  \<open>convstar\<close>, \<open>unet\<close> and \<open>utae\<close>, whether or not the invocation trains. It is absent for
  every fresh start, for every evaluate-only invocation without a resume argument, and
  for \<open>simvp\<close>.
\<close>

theorem restored_iff_resume_given:
  assumes "main_plan float_of m fs now results_path resume train num_epochs load_checkpoint
             = Inr (fs', pl)"
  shows "restored_learning_rate pl \<noteq> None \<longleftrightarrow> resume \<noteq> None \<and> restores_lr m"
  using assms
  by (cases m)
     (auto simp: main_plan_def Let_def restores_lr_def
           split: if_splits sum.splits option.splits prod.splits)

theorem restored_iff_resume_given_witness:
  "main_plan decimal_literal UNet two_epochs clock (Path ''logs'') (Some ''last'') True 10 None =
     Inr (two_epochs,
          \<lparr> run_path = Path ''logs/run_1'',
            checkpoint_to_load = Some (Path ''logs/run_1/checkpoints/epoch=1.ckpt''),
            start_epoch = 1, end_epoch = 11, restored_learning_rate = Some ''0.05'' \<rparr>) \<and>
   (Some ''0.05'' \<noteq> (None :: string option)) = (Some ''last'' \<noteq> (None :: string option) \<and> restores_lr UNet)"
proof -
  let ?pl = "\<lparr> run_path = Path ''logs/run_1'',
            checkpoint_to_load = Some (Path ''logs/run_1/checkpoints/epoch=1.ckpt''),
            start_epoch = 1, end_epoch = 11, restored_learning_rate = Some ''0.05'' \<rparr>"
  have mp: "main_plan decimal_literal UNet two_epochs clock (Path ''logs'') (Some ''last'') True
              10 None = Inr (two_epochs, ?pl)"
    by code_simp
  from restored_iff_resume_given [OF mp] mp show ?thesis by simp
qed

subsection \<open>Evaluate-only\<close>




subsection \<open>Fresh start\<close>

text \<open>
  Creating a directory in an empty directory: the tree gains this one entry, and the node
  at every path that is neither the new directory nor one of its ancestors is as before.
\<close>

lemma lookup_append:
  "lookup t ps = Inr n \<Longrightarrow> lookup t (ps @ qs) = lookup n qs"
proof (induction t ps rule: lookup.induct)
  case (1 n)
  then show ?case by simp
next
  case (2 ls x xs)
  then show ?case by simp
next
  case (3 cs x xs)
  then show ?case by (auto split: option.splits)
qed

lemma mkdir_p_new:
  assumes "lookup t ps = Inr (Dir [])"
  shows "\<exists>t'. mkdir_p t (ps @ [x]) = Inr t' \<and>
           lookup t' ps = Inr (Dir [(x, Dir [])]) \<and>
           (\<forall>q. \<not> prefix q (ps @ [x]) \<longrightarrow> lookup t' q = lookup t q)"
  using assms
proof (induction ps arbitrary: t)
  case Nil
  then have t: "t = Dir []" by simp
  have "lookup (Dir [(x, Dir [])]) q = lookup (Dir []) q" if "\<not> prefix q [x]" for q
  proof (cases q)
    case Nil
    with that show ?thesis by simp
  next
    case (Cons y rest)
    with that show ?thesis by (cases rest) auto
  qed
  with t show ?case by simp
next
  case (Cons p ps)
  from Cons.prems obtain cs where t: "t = Dir cs"
    by (cases t) auto
  from Cons.prems t obtain n where n: "map_of cs p = Some n" and l: "lookup n ps = Inr (Dir [])"
    by (auto split: option.splits)
  from Cons.IH [OF l] obtain n' where m: "mkdir_p n (ps @ [x]) = Inr n'"
    and l': "lookup n' ps = Inr (Dir [(x, Dir [])])"
    and fr: "\<forall>q. \<not> prefix q (ps @ [x]) \<longrightarrow> lookup n' q = lookup n q"
    by blast
  let ?t' = "Dir (AList.update p n' cs)"
  have a: "mkdir_p t ((p # ps) @ [x]) = Inr ?t'"
    using t n m by simp
  have b: "lookup ?t' (p # ps) = Inr (Dir [(x, Dir [])])"
    using l' by (simp add: update_conv')
  have c: "lookup ?t' q = lookup t q" if "\<not> prefix q ((p # ps) @ [x])" for q
  proof (cases q)
    case Nil
    with that show ?thesis by simp
  next
    case (Cons y rest)
    show ?thesis
    proof (cases "y = p")
      case True
      with that Cons have "\<not> prefix rest (ps @ [x])" by simp
      with fr have "lookup n' rest = lookup n rest" by blast
      with True Cons t n show ?thesis by (simp add: update_conv')
    next
      case False
      with Cons t show ?thesis by (simp add: update_conv')
    qed
  qed
  from a b c show ?case by blast
qed

lemma abs_parts_joinpath: "abs_parts fs (joinpath p x) = abs_parts fs p @ [x]"
  by (simp add: abs_parts_def joinpath_def)

lemma strftime_length: "length (strftime t) = 14"
  by (simp add: strftime_def pad2_def pad4_def)

text \<open>
  C5. The claim is that a fresh start on an empty results root creates the run directory
  together with a nested checkpoint subdirectory. \<open>resume_or_start\<close> calls \<open>mkdir\<close> on the
  run path only: after the call the run directory exists and \<open>checkpoints\<close> below it does
  not.
\<close>

theorem fresh_start_makes_no_checkpoint_directory:
  "lookup (tree no_runs) (abs_parts no_runs (Path ''logs'')) = Inr (Dir []) \<and>
   resume_or_start no_runs clock (Path ''logs'') None True 10 None =
     Inr (after_fresh_start, Path ''logs/run_20240309070501'', None, 10, 0) \<and>
   lookup (tree after_fresh_start)
     (abs_parts after_fresh_start (Path ''logs/run_20240309070501/checkpoints''))
     = Inl FileNotFoundError"
  by code_simp

text \<open>
  C5, as the code has it: a fresh start (training, no resume argument) on a results root
  that is an empty directory returns the start epoch 0, the end epoch \<open>num_epochs\<close> and no
  checkpoint, and creates exactly one directory: the run directory \<open>run_\<close> followed by the
  14 digits of the clock's year, month, day, hour, minute and second (the microseconds do
  not enter the name). Afterwards the results root lists this one entry, the run
  directory is empty (no checkpoint subdirectory), and the rest of the file system is
  unchanged. The plan of every model but \<open>tempcnn\<close> carries these values and no restored
  learning rate.
\<close>

theorem run_directory_created:
  assumes "lookup (tree fs) (abs_parts fs results_path) = Inr (Dir [])"
  shows "\<exists>fs'.
           resume_or_start fs now results_path None True num_epochs load_checkpoint =
             Inr (fs', joinpath results_path (''run_'' @ strftime now), None, num_epochs, 0) \<and>
           (m \<noteq> TempCNN \<longrightarrow>
              main_plan float_of m fs now results_path None True num_epochs load_checkpoint =
                Inr (fs', \<lparr> run_path = joinpath results_path (''run_'' @ strftime now),
                           checkpoint_to_load = None, start_epoch = 0,
                           end_epoch = num_epochs, restored_learning_rate = None \<rparr>)) \<and>
           listdir fs' results_path = [''run_'' @ strftime now] \<and>
           listdir fs' (joinpath results_path (''run_'' @ strftime now)) = [] \<and>
           lookup (tree fs') (abs_parts fs' (joinpath results_path (''run_'' @ strftime now)))
             = Inr (Dir []) \<and>
           cwd fs' = cwd fs \<and>
           (\<forall>q. \<not> prefix q (abs_parts fs (joinpath results_path (''run_'' @ strftime now))) \<longrightarrow>
                lookup (tree fs') q = lookup (tree fs) q) \<and>
           length (strftime now) = 14 \<and>
           (\<forall>us. strftime (now \<lparr> microsecond := us \<rparr>) = strftime now)"
proof -
  let ?x = "''run_'' @ strftime now"
  let ?ps = "abs_parts fs results_path"
  from mkdir_p_new [OF assms, of ?x] obtain t' where m: "mkdir_p (tree fs) (?ps @ [?x]) = Inr t'"
    and l: "lookup t' ?ps = Inr (Dir [(?x, Dir [])])"
    and fr: "\<forall>q. \<not> prefix q (?ps @ [?x]) \<longrightarrow> lookup t' q = lookup (tree fs) q"
    by blast
  let ?fs' = "fs \<lparr> tree := t' \<rparr>"
  have ap: "abs_parts ?fs' p = abs_parts fs p" for p
    by (simp add: abs_parts_def)
  have mk: "mkdir fs (joinpath results_path ?x) = Inr ?fs'"
    using m by (simp add: mkdir_def abs_parts_joinpath)
  have r: "resume_or_start fs now results_path None True num_epochs load_checkpoint =
             Inr (?fs', joinpath results_path ?x, None, num_epochs, 0)"
    using mk by (simp add: resume_or_start_def Let_def)
  have mp: "main_plan float_of m fs now results_path None True num_epochs load_checkpoint =
                Inr (?fs', \<lparr> run_path = joinpath results_path ?x,
                           checkpoint_to_load = None, start_epoch = 0,
                           end_epoch = num_epochs, restored_learning_rate = None \<rparr>)"
    if "m \<noteq> TempCNN"
    using r that by (simp add: main_plan_def Let_def)
  have ld: "listdir ?fs' results_path = [?x]"
    using l by (simp add: listdir_def ap)
  have nl: "lookup t' (?ps @ [?x]) = Inr (Dir [])"
    using lookup_append [OF l, of "[?x]"] by simp
  have ld2: "listdir ?fs' (joinpath results_path ?x) = []"
    using nl by (simp add: listdir_def ap abs_parts_joinpath)
  have lk: "lookup (tree ?fs') (abs_parts ?fs' (joinpath results_path ?x)) = Inr (Dir [])"
    using nl by (simp add: ap abs_parts_joinpath)
  have fr': "\<forall>q. \<not> prefix q (abs_parts fs (joinpath results_path ?x)) \<longrightarrow>
                lookup (tree ?fs') q = lookup (tree fs) q"
    using fr by (simp add: abs_parts_joinpath)
  have us: "\<forall>us. strftime (now \<lparr> microsecond := us \<rparr>) = strftime now"
    by (simp add: strftime_def)
  have cw: "cwd ?fs' = cwd fs" by simp
  from r mp ld ld2 lk cw fr' strftime_length us show ?thesis by blast
qed

theorem run_directory_created_witness:
  "lookup (tree no_runs) (abs_parts no_runs (Path ''logs'')) = Inr (Dir []) \<and>
   SimVP \<noteq> TempCNN \<and>
   strftime clock = ''20240309070501'' \<and>
   (\<exists>fs'. resume_or_start no_runs clock (Path ''logs'') None True 10 None =
       Inr (fs', Path ''logs/run_20240309070501'', None, 10, 0) \<and>
     main_plan decimal_literal SimVP no_runs clock (Path ''logs'') None True 10 None =
       Inr (fs', \<lparr> run_path = Path ''logs/run_20240309070501'', checkpoint_to_load = None,
                  start_epoch = 0, end_epoch = 10, restored_learning_rate = None \<rparr>) \<and>
     listdir fs' (Path ''logs'') = [''run_20240309070501''] \<and>
     listdir fs' (Path ''logs/run_20240309070501'') = [])"
proof -
  have h: "lookup (tree no_runs) (abs_parts no_runs (Path ''logs'')) = Inr (Dir [])"
    by code_simp
  have m: "SimVP \<noteq> TempCNN" by simp
  have ts: "strftime clock = ''20240309070501''" by code_simp
  have jp: "joinpath (Path ''logs'') (''run_'' @ ''20240309070501'') = Path ''logs/run_20240309070501''"
    by code_simp
  from run_directory_created [OF h, of clock 10 None SimVP decimal_literal, unfolded ts jp] m
  obtain fs' where "resume_or_start no_runs clock (Path ''logs'') None True 10 None =
       Inr (fs', Path ''logs/run_20240309070501'', None, 10, 0)"
    and "main_plan decimal_literal SimVP no_runs clock (Path ''logs'') None True 10 None =
       Inr (fs', \<lparr> run_path = Path ''logs/run_20240309070501'', checkpoint_to_load = None,
                  start_epoch = 0, end_epoch = 10, restored_learning_rate = None \<rparr>)"
    and "listdir fs' (Path ''logs'') = [''run_'' @ ''20240309070501'']"
    and "listdir fs' (Path ''logs/run_20240309070501'') = []"
    by blast
  then have "\<exists>fs'. resume_or_start no_runs clock (Path ''logs'') None True 10 None =
       Inr (fs', Path ''logs/run_20240309070501'', None, 10, 0) \<and>
     main_plan decimal_literal SimVP no_runs clock (Path ''logs'') None True 10 None =
       Inr (fs', \<lparr> run_path = Path ''logs/run_20240309070501'', checkpoint_to_load = None,
                  start_epoch = 0, end_epoch = 10, restored_learning_rate = None \<rparr>) \<and>
     listdir fs' (Path ''logs'') = [''run_20240309070501''] \<and>
     listdir fs' (Path ''logs/run_20240309070501'') = []"
    by auto
  with h m ts show ?thesis by blast
qed

subsection \<open>Resume-last\<close>

lemma sorted_le_last:
  fixes xs :: "int list"
  shows "sorted xs \<Longrightarrow> x \<in> set xs \<Longrightarrow> x \<le> last xs"
  by (induction xs) auto

lemma sort_key_nonempty: "xs \<noteq> [] \<Longrightarrow> sort_key f xs \<noteq> []"
  by (metis length_sort length_0_conv)

lemma last_sort_greatest:
  fixes xs :: "int list"
  assumes "N \<in> set xs" and "\<forall>k\<in>set xs. k \<le> N"
  shows "last (sort xs) = N"
proof -
  from assms(1) have "xs \<noteq> []" by auto
  then have ne: "sort xs \<noteq> []" by (rule sort_key_nonempty)
  have "last (sort xs) \<in> set (sort xs)" using ne by (rule last_in_set)
  then have le: "last (sort xs) \<le> N" using assms(2) by simp
  have "N \<in> set (sort xs)" using assms(1) by simp
  with sorted_sort [of xs] have "N \<le> last (sort xs)" by (rule sorted_le_last)
  with le show ?thesis by simp
qed

lemma restore_lr_last_line:
  assumes "\<forall>l\<in>set pre. py_int (hd (epoch_lr l)) \<noteq> None \<and> py_int (hd (epoch_lr l)) \<noteq> Some e"
    and "py_int (hd (epoch_lr l)) = Some e"
    and "1 < length (epoch_lr l)"
    and "float_of (epoch_lr l ! 1) = Some v"
  shows "restore_lr float_of e cur (pre @ [l]) = Inr (Some v)"
proof -
  from assms(1) have "restore_lr float_of e cur pre = Inr cur"
    using restore_lr_no_match [of pre e float_of cur] by simp
  then have "restore_lr float_of e cur (pre @ [l]) = restore_lr float_of e cur [l]"
    by (rule restore_lr_append)
  moreover obtain a b rest where "epoch_lr l = a # b # rest"
    using assms(3) by (cases "epoch_lr l"; cases "tl (epoch_lr l)") auto
  ultimately show ?thesis using assms(2,4) by simp
qed

text \<open>
  C3. The claim is that every resume-last invocation on a run with checkpoints and ledger
  entries for the epochs 0 to \<open>N\<close> restores the ledger's rate of epoch \<open>N\<close>. The block of
  \<open>simvp\<close> has no statement that reads the ledger: with checkpoints and ledger lines for the
  epochs 0 and 1 its plan starts at epoch 1 and carries no restored learning rate.
\<close>

theorem simvp_resume_last_restores_nothing:
  "glob two_epochs (Path ''logs'') run_star = [Path ''logs/run_1''] \<and>
   scan_checkpoints two_epochs (Path ''logs/run_1'') =
     Inr [(0, Path ''logs/run_1/checkpoints/epoch=0.ckpt''),
          (1, Path ''logs/run_1/checkpoints/epoch=1.ckpt'')] \<and>
   open_lines two_epochs (joinpath (Path ''logs/run_1'') ''lrs.txt'') =
     Inr [''0: 0.1\<newline>'', ''1: 0.05\<newline>''] \<and>
   main_plan decimal_literal SimVP two_epochs clock (Path ''logs'') (Some ''last'') True 10 None =
     Inr (two_epochs,
          \<lparr> run_path = Path ''logs/run_1'',
            checkpoint_to_load = Some (Path ''logs/run_1/checkpoints/epoch=1.ckpt''),
            start_epoch = 1, end_epoch = 11, restored_learning_rate = None \<rparr>)"
  by code_simp

text \<open>
  C3, as the code has it: for the models \<open>convlstm\<close>, \<open>convstar\<close>, \<open>unet\<close> and \<open>utae\<close>, a
  resume-last invocation on a results root whose latest run (the greatest \<open>run_*\<close> path)
  scans to checkpoints for exactly the epochs 0 to \<open>N\<close> and whose ledger has one line for
  each of the epochs 0 to \<open>N\<close>, in this order, resolves to that run, the scanned handle of
  epoch \<open>N\<close>, the start epoch \<open>N\<close>, the end epoch \<open>N + num_epochs\<close> and the rate of the
  ledger's line for epoch \<open>N\<close>. Up to the restored rate this is what \<open>resume_or_start\<close>
  returns for every model.
\<close>

theorem resume_last_round_trip:
  assumes "restores_lr m"
    and "glob fs results_path run_star \<noteq> []"
    and "run = last (sort_key path_key (glob fs results_path run_star))"
    and "scan_checkpoints fs run = Inr d"
    and "fst ` set d = {0..int N}"
    and "open_lines fs (joinpath run ''lrs.txt'') = Inr ls"
    and "map (\<lambda>l. py_int (hd (epoch_lr l))) ls = map (\<lambda>k. Some (int k)) [0..<Suc N]"
    and "1 < length (epoch_lr (ls ! N))"
    and "float_of (epoch_lr (ls ! N) ! 1) = Some v"
  shows "\<exists>x. map_of d (int N) = Some x \<and>
           resume_or_start fs now results_path (Some ''last'') True num_epochs load_checkpoint =
             Inr (fs, run, Some x, int N + num_epochs, int N) \<and>
           main_plan float_of m fs now results_path (Some ''last'') True num_epochs
               load_checkpoint =
             Inr (fs, \<lparr> run_path = run, checkpoint_to_load = Some x, start_epoch = int N,
                        end_epoch = int N + num_epochs,
                        restored_learning_rate = Some v \<rparr>)"
proof -
  have inN: "int N \<in> set (map fst d)" and leN: "\<forall>k\<in>set (map fst d). k \<le> int N"
    using assms(5) by auto
  have lastN: "last (sort (map fst d)) = int N"
    using inN leN by (rule last_sort_greatest)
  have "map fst d \<noteq> []" using inN by auto
  then have ne: "sort (map fst d) \<noteq> []" by (rule sort_key_nonempty)
  have rne: "sort_key path_key (glob fs results_path run_star) \<noteq> []"
    using assms(2) by (rule sort_key_nonempty)
  from inN obtain x where x: "map_of d (int N) = Some x"
    by (metis (no_types, lifting) domD dom_map_of_conv_image_fst set_map)
  have rs: "resume_or_start fs now results_path (Some ''last'') True num_epochs load_checkpoint =
             Inr (fs, run, Some x, int N + num_epochs, int N)"
    using rne assms(3,4) lastN ne x
    by (simp add: resume_or_start_def Let_def)
  have len: "length ls = Suc N"
    using arg_cong [OF assms(7), of length] by simp
  have nth: "py_int (hd (epoch_lr (ls ! i))) = Some (int i)" if "i < Suc N" for i
  proof -
    have "map (\<lambda>l. py_int (hd (epoch_lr l))) ls ! i = map (\<lambda>k. Some (int k)) [0..<Suc N] ! i"
      using assms(7) by simp
    with that len show ?thesis by (simp del: upt_Suc)
  qed
  have split: "ls = take N ls @ [ls ! N]"
    using len by (simp add: take_Suc_conv_app_nth [symmetric])
  have pre: "\<forall>l\<in>set (take N ls). py_int (hd (epoch_lr l)) \<noteq> None \<and>
               py_int (hd (epoch_lr l)) \<noteq> Some (int N)"
  proof
    fix l assume "l \<in> set (take N ls)"
    then obtain i where i: "i < N" and l: "l = ls ! i"
      using len by (auto simp: in_set_conv_nth)
    from nth [of i] i l show "py_int (hd (epoch_lr l)) \<noteq> None \<and>
               py_int (hd (epoch_lr l)) \<noteq> Some (int N)"
      by simp
  qed
  have "restore_lr float_of (int N) None (take N ls @ [ls ! N]) = Inr (Some v)"
    using pre nth [of N] assms(8,9) by (intro restore_lr_last_line) simp_all
  with split have rl: "restore_lr float_of (int N) None ls = Inr (Some v)"
    by simp
  from assms(1) have mm: "m \<noteq> TempCNN" "m \<noteq> SimVP"
    by (auto simp: restores_lr_def)
  have "main_plan float_of m fs now results_path (Some ''last'') True num_epochs
               load_checkpoint =
             Inr (fs, \<lparr> run_path = run, checkpoint_to_load = Some x, start_epoch = int N,
                        end_epoch = int N + num_epochs,
                        restored_learning_rate = Some v \<rparr>)"
    using rs mm assms(6) rl by (simp add: main_plan_def Let_def)
  with x rs show ?thesis by blast
qed

theorem resume_last_round_trip_witness:
  "restores_lr ConvLSTM \<and>
   glob two_epochs (Path ''logs'') run_star = [Path ''logs/run_1''] \<and>
   scan_checkpoints two_epochs (Path ''logs/run_1'') =
     Inr [(0, Path ''logs/run_1/checkpoints/epoch=0.ckpt''),
          (1, Path ''logs/run_1/checkpoints/epoch=1.ckpt'')] \<and>
   open_lines two_epochs (joinpath (Path ''logs/run_1'') ''lrs.txt'') =
     Inr [''0: 0.1\<newline>'', ''1: 0.05\<newline>''] \<and>
   main_plan decimal_literal ConvLSTM two_epochs clock (Path ''logs'') (Some ''last'') True 10
       None =
     Inr (two_epochs,
          \<lparr> run_path = Path ''logs/run_1'',
            checkpoint_to_load = Some (Path ''logs/run_1/checkpoints/epoch=1.ckpt''),
            start_epoch = 1, end_epoch = 11, restored_learning_rate = Some ''0.05'' \<rparr>)"
proof -
  let ?d = "[(0 :: int, Path ''logs/run_1/checkpoints/epoch=0.ckpt''),
          (1, Path ''logs/run_1/checkpoints/epoch=1.ckpt'')]"
  let ?ls = "[''0: 0.1\<newline>'', ''1: 0.05\<newline>'']"
  have h1: "restores_lr ConvLSTM" by (simp add: restores_lr_def)
  have g: "glob two_epochs (Path ''logs'') run_star = [Path ''logs/run_1'']" by code_simp
  then have h2: "glob two_epochs (Path ''logs'') run_star \<noteq> []" by simp
  have h3: "Path ''logs/run_1'' = last (sort_key path_key (glob two_epochs (Path ''logs'') run_star))"
    by code_simp
  have h4: "scan_checkpoints two_epochs (Path ''logs/run_1'') = Inr ?d" by code_simp
  have h5: "fst ` set ?d = {0..int 1}" by auto
  have h6: "open_lines two_epochs (joinpath (Path ''logs/run_1'') ''lrs.txt'') = Inr ?ls"
    by code_simp
  have h7: "map (\<lambda>l. py_int (hd (epoch_lr l))) ?ls = map (\<lambda>k. Some (int k)) [0..<Suc 1]"
    by code_simp
  have h8: "1 < length (epoch_lr (?ls ! 1))" by code_simp
  have h9: "decimal_literal (epoch_lr (?ls ! 1) ! 1) = Some ''0.05''" by code_simp
  from resume_last_round_trip
         [where float_of = decimal_literal and m = ConvLSTM and fs = two_epochs
            and results_path = "Path ''logs''" and run = "Path ''logs/run_1''" and d = ?d
            and N = 1 and ls = ?ls and v = "''0.05''" and now = clock and num_epochs = 10
            and load_checkpoint = None,
          OF h1 h2 h3 h4 h5 h6 h7 h8 h9]
  have "main_plan decimal_literal ConvLSTM two_epochs clock (Path ''logs'') (Some ''last'') True 10
       None =
     Inr (two_epochs,
          \<lparr> run_path = Path ''logs/run_1'',
            checkpoint_to_load = Some (Path ''logs/run_1/checkpoints/epoch=1.ckpt''),
            start_epoch = 1, end_epoch = 11, restored_learning_rate = Some ''0.05'' \<rparr>)"
    by auto
  with h1 g h4 h6 show ?thesis by blast
qed

end
